theory Spec2Isabelle
  imports Complex_Main "HOL-Library.Word"
begin

section \<open>Conventions of the embedding\<close>

text \<open>
  The firmware computes on C \<^verbatim>\<open>float\<close> values. The embedding reads every \<^verbatim>\<open>float\<close>
  as a \<^typ>\<open>real\<close> and the macro \<^verbatim>\<open>PI\<close> as \<^term>\<open>pi\<close>: the theorems below are about
  the control flow and the exact arithmetic of the formulas, not about rounding.
  An \<^verbatim>\<open>unsigned long\<close> (the millisecond clock and every timer derived from it) is a
  32-bit word, so that sums of timestamps wrap as on the target board.
  Within one call of a function, every read of \<^verbatim>\<open>millis()\<close> returns the same instant.

  The constants of \<^verbatim>\<open>config.h\<close> are parameters (the fields of the configuration
  records), and so are the angle and geometry routines of \<^verbatim>\<open>helper.h\<close> and the
  Arduino \<^verbatim>\<open>map\<close> function (the fields of \<open>helpers\<close>): none of them is part of the
  sources that are embedded here.
  Calls into collaborators (the active operation, the motor, the buzzer, the map) are
  recorded, in order, in an effect trace.
\<close>

type_synonym ulong = "32 word"

datatype Solution = SOL_INVALID | SOL_FLOAT | SOL_FIXED

datatype WayType = WAY_PERIMETER | WAY_EXCLUSION | WAY_DOCK | WAY_MOW | WAY_FREE

datatype OperationType = OP_IDLE | OP_MOW | OP_CHARGE | OP_ERROR | OP_DOCK

datatype Sensor = SENS_NONE | SENS_BUMPER | SENS_STOP_BUTTON

datatype effect =
    OnGpsFixTimeout
  | OnDockGpsReboot
  | OnKidnapped bool
  | OnObstacle
  | OnWaitCommand nat
  | OnTargetReached
  | OnNoFurtherWaypoints
  | ResetStateEstimation
  | ResetMotion
  | BuzzerSoundError
  | DockPointsIdxDecrement
  | NextPoint
  | SetMowState bool
  | SetLinearAngularSpeed real real bool
  | SetOperation OperationType
  | SetObstaclePosition real real real real real
  | StatCounter string

text \<open>The Arduino macro \<^verbatim>\<open>constrain(x, lo, hi)\<close>.\<close>

definition constrain :: "real \<Rightarrow> real \<Rightarrow> real \<Rightarrow> real" where
  "constrain x lo hi = (if x < lo then lo else if x > hi then hi else x)"

text \<open>
  The C library's \<^verbatim>\<open>atan2(y, x)\<close> on reals (the quadrant-aware arc tangent; the
  signed zeros of IEEE arithmetic do not exist on \<^typ>\<open>real\<close>).
\<close>

definition atan2 :: "real \<Rightarrow> real \<Rightarrow> real" where
  "atan2 y x =
     (if 0 < x then arctan (y / x)
      else if x < 0 \<and> 0 \<le> y then arctan (y / x) + pi
      else if x < 0 \<and> y < 0 then arctan (y / x) - pi
      else if 0 < y then pi / 2
      else if y < 0 then - (pi / 2)
      else 0)"

text \<open>The routines of \<^verbatim>\<open>helper.h\<close> and the Arduino core that the sources call.\<close>

record helpers =
  scalePI :: "real \<Rightarrow> real"
  distancePI :: "real \<Rightarrow> real \<Rightarrow> real"
  scalePIangles :: "real \<Rightarrow> real \<Rightarrow> real"
  fusionPI :: "real \<Rightarrow> real \<Rightarrow> real \<Rightarrow> real"
  pointsAngle :: "real \<Rightarrow> real \<Rightarrow> real \<Rightarrow> real \<Rightarrow> real"
  distanceLineInfinite :: "real \<Rightarrow> real \<Rightarrow> real \<Rightarrow> real \<Rightarrow> real \<Rightarrow> real \<Rightarrow> real"
  distanceLine :: "real \<Rightarrow> real \<Rightarrow> real \<Rightarrow> real \<Rightarrow> real \<Rightarrow> real \<Rightarrow> real"
  distance :: "real \<Rightarrow> real \<Rightarrow> real \<Rightarrow> real \<Rightarrow> real"
  arduino_map :: "real \<Rightarrow> real \<Rightarrow> real \<Rightarrow> real \<Rightarrow> real \<Rightarrow> real"
  relativeLL :: "real \<Rightarrow> real \<Rightarrow> real \<Rightarrow> real \<Rightarrow> real \<times> real"

section \<open>Configuration, collaborators and module state\<close>

text \<open>The macros of \<^verbatim>\<open>config.h\<close> that the embedded functions read.\<close>

record config =
  TRANSITION_ANGLE :: real
  ROTATION_RAMP :: bool
  ROTATION_RAMP_MIN :: real
  ROTATION_RAMP_MAX :: real
  ANGLEDIFF1 :: real
  ANGLEDIFF2 :: real
  ROTATETOTARGETSPEED1 :: real
  ROTATETOTARGETSPEED2 :: real
  ROTATETOTARGETSPEED3 :: real
  ANGLEPRECISE :: real
  STANLEY_CONTROL_K_NORMAL :: real
  STANLEY_CONTROL_P_NORMAL :: real
  STANLEY_CONTROL_K_SLOW :: real
  STANLEY_CONTROL_P_SLOW :: real
  MAP_STANLEY_CONTROL :: bool
  STANLEY_FLOAT_K_NORMAL :: real
  STANLEY_FLOAT_P_NORMAL :: real
  STANLEY_FLOAT_K_SLOW :: real
  STANLEY_FLOAT_P_SLOW :: real
  MOTOR_MIN_SPEED :: real
  MOTOR_MAX_SPEED :: real
  FLOATSPEED :: real
  NEARWAYPOINTSPEED :: real
  SONARSPEED :: real
  OVERLOADSPEED :: real
  KEEPSLOWSPEED :: real
  RETRYSLOWSPEED :: real
  TRACKSLOWSPEED :: real
  DOCKPATHSPEED :: real
  DOCKSPEED :: real
  NEARWAYPOINTDISTANCE :: real
  DISTANCE_RAMP :: bool
  DISTANCE_RAMP_MINSPEED :: real
  TRANSITION_SPEED :: real
  DOCK_GPS_REBOOT :: bool
  KIDNAP_DETECT :: bool
  KIDNAP_DETECT_ALLOWED_PATH_TOLERANCE :: real
  KIDNAP_DETECT_DISTANCE_DOCK_UNDOCK :: real
  KIDNAP_DETECT_ALLOWED_PATH_TOLERANCE_DOCK_UNDOCK :: real
  DOCK_NO_ROTATION :: bool
  DOCK_NO_ROTATION_DISTANCE :: real
  DOCK_NO_ROTATION_SPEED :: real
  DOCK_NO_ROTATION_TIMER :: ulong
  MOW_START_AT_WAYMOW :: bool
  TARGET_REACHED_TOLERANCE :: real
  ENABLE_LIFT_DETECTION :: bool
  LIFT_OBSTACLE_AVOIDANCE :: bool
  BUMPER_ENABLE :: bool
  BUMPER_TRIGGER_DELAY :: ulong
  BUMPER_MAX_TRIGGER_TIME :: ulong
  BUMPER_DEADTIME :: ulong
  MOWER_RADIUS_FRONT :: real
  MOWER_RADIUS_BACK :: real
  OBSTACLE_DIAMETER :: real
  ESCAPE_REVERSE_WAY :: real
  SONAR_TRIGGER_OBSTACLES :: bool
  GPS_SPEED_DEADTIME :: ulong
  GPS_SPEED_DETECTION :: bool
  GPS_SPEED_DELAY :: ulong
  NO_GPS_OBSTACLE :: bool
  GPS_MOTION_DETECTION :: bool
  GPS_MOTION_DETECTION_DELTA :: real
  GPS_MOTION_DETECTION_TIMEOUT :: ulong
  ROBOT_IDLE_CYCLE :: nat
  ROBOT_CONTROL_CYCLE :: nat

text \<open>The members of \<^verbatim>\<open>class Motor\<close> (\<^verbatim>\<open>motor.h\<close>) that are read.\<close>

record Motor =
  linearSpeedSet :: real
  angularSpeedSet :: real
  motorLeftOverload :: bool
  motorRightOverload :: bool
  motorMowOverload :: bool
  keepslow :: bool
  retryslow :: bool
  switchedOn :: bool
  enableMowMotor :: bool
  motorLeftTicks :: ulong
  motorRightTicks :: ulong
  ticksPerCm :: real
  wheelBaseCm :: real

text \<open>The GPS receiver's solution, as read in one tick.\<close>

record GPS =
  solution :: Solution
  relPosN :: real
  relPosE :: real
  lat :: real
  lon :: real
  groundSpeed :: real

text \<open>The answers of the map (\<^verbatim>\<open>maps\<close>) in one tick.\<close>

record Maps =
  targetPoint :: "real \<times> real"
  lastTargetPoint :: "real \<times> real"
  distanceToTargetPoint :: "real \<Rightarrow> real \<Rightarrow> real"
  distanceToLastTargetPoint :: "real \<Rightarrow> real \<Rightarrow> real"
  trackReverse :: bool
  trackSlow :: bool
  wayMode :: WayType
  isUndocking :: bool
  isDocking :: bool
  isAtDockPath :: bool
  isGoingToDockPath :: bool
  isTargetingLastDockPoint :: bool
  isBetweenLastAndNextToLastDockPoint :: bool
  shouldGpsReboot :: bool
  isAtGpsRebootPoint :: bool
  shouldDock :: bool
  getDockingPos :: "real \<times> real"
  nextPointIsStraight :: bool
  nextPoint :: bool
  useGPSfixForDeltaEstimation :: bool
  useGPSfloatForDeltaEstimation :: bool
  useGPSfixForPosEstimation :: bool
  useGPSfloatForPosEstimation :: bool
  useIMU :: bool

text \<open>
  Everything outside the embedded modules that one tick reads: the clock, the motor,
  the GPS receiver, the map, and the sonar, buzzer, lift, IMU and bumper drivers.
\<close>

record world =
  millis :: ulong
  motor :: Motor
  gps :: GPS
  maps :: Maps
  sonar_nearObstacle :: bool
  sonar_obstacle :: bool
  buzzer_isPlaying :: bool
  liftDriver_triggered :: bool
  imuDriver_imuFound :: bool
  bumperDriver_getLeftBumper :: bool
  bumperDriver_getRightBumper :: bool

text \<open>The globals of \<^verbatim>\<open>StateEstimator.cpp\<close> (with the two it shares with other files).\<close>

record estimator =
  stateX :: real
  stateY :: real
  stateDelta :: real
  stateHeading :: real
  stateDeltaGPS :: real
  stateDeltaIMU :: real
  stateGroundSpeed :: real
  stateLeftTicks :: ulong
  stateRightTicks :: ulong
  lastPosN :: real
  lastPosE :: real
  lastPosDelta :: real
  stateDeltaLast :: real
  stateDeltaSpeed :: real
  stateDeltaSpeedLP :: real
  stateDeltaSpeedIMU :: real
  stateDeltaSpeedWheels :: real
  diffIMUWheelYawSpeed :: real
  diffIMUWheelYawSpeedLP :: real
  gpsJump :: bool
  resetLastPos :: bool
  timeLastState :: ulong
  solutionTime :: ulong
  lastSolutionTime :: ulong
  solutionTimeDelta :: ulong
  lastFixTime :: ulong
  gps_solutionAvail :: bool
  statGPSJumps :: nat
  statMowDistanceTraveled :: real

text \<open>The globals of \<^verbatim>\<open>robot.cpp\<close> and the statics of \<^verbatim>\<open>detectObstacle\<close>.\<close>

record robot =
  stateOp :: OperationType
  stateSensor :: Sensor
  stateChargerConnected :: bool
  robot_control_cycle :: nat
  fixTimeout :: int
  absolutePosSource :: bool
  absolutePosSourceLat :: real
  absolutePosSourceLon :: real
  deltaTime :: ulong
  gpsObstacleNotAllowed :: bool
  gpsObstacleNotAllowedTime :: ulong
  linearMotionStartTime :: ulong
  angularMotionStartTime :: ulong
  overallMotionTimeout :: ulong
  nextGPSMotionCheckTime :: ulong
  lastGPSMotionX :: real
  lastGPSMotionY :: real
  detectObstacle_lastBumperTime :: ulong
  noGPSSpeedTime :: ulong
  trace :: "effect list"

text \<open>The globals of \<^verbatim>\<open>bumper.cpp\<close>.\<close>

record bumper =
  inputLeftPressed :: bool
  inputRightPressed :: bool
  outputLeftPressed :: bool
  outputRightPressed :: bool
  bumperLeft :: bool
  bumperRight :: bool
  leftTrigTime :: ulong
  rightTrigTime :: ulong
  rightOnTimer :: ulong
  leftOnTimer :: ulong
  lastBumperTime :: ulong

text \<open>
  The global and function-static variables of \<^verbatim>\<open>LineTracker.cpp\<close>, with
  \<^verbatim>\<open>lateralError\<close>, which the tracker writes. Calls from the tracker into the active
  operation, the motor, the buzzer, the map and \<^verbatim>\<open>robot.cpp\<close> go to \<open>effects\<close>.
\<close>

record tracker =
  stanleyTrackingNormalK :: real
  stanleyTrackingNormalP :: real
  stanleyTrackingSlowK :: real
  stanleyTrackingSlowP :: real
  targetDist :: real
  lastTargetDist :: real
  setSpeed :: real
  CurrSpeed :: real
  CurrRot :: real
  linear :: real
  angular :: real
  target :: "real \<times> real"
  lastTarget :: "real \<times> real"
  mow :: bool
  trackslow_allowed :: bool
  straight :: bool
  shouldRotate :: bool
  angleToTargetFits :: bool
  angleToTargetPrecise :: bool
  targetReached :: bool
  stateKidnapped :: bool
  dockTimer :: bool
  unDockTimer :: bool
  oneTrigger :: bool
  trackerDiffDelta :: real
  targetDelta :: real
  distToPath :: real
  lateralError :: real
  reachedPointBeforeDockTime :: ulong
  chosenIndex :: nat
  chosenIndexl :: nat
  wasStraight :: bool
  effects :: "effect list"

definition emit :: "effect \<Rightarrow> tracker \<Rightarrow> tracker" where
  "emit e s = s\<lparr>effects := effects s @ [e]\<rparr>"

section \<open>LineTracker.cpp\<close>

subsection \<open>The gate and the rotate-in-place controller\<close>

text \<open>\<^verbatim>\<open>AngleToTargetFits()\<close>: the updated state and the returned flag.\<close>

definition AngleToTargetFits :: "config \<Rightarrow> tracker \<Rightarrow> tracker" where
  "AngleToTargetFits c s =
     (let fits1 =
            (if targetDist s < 0.3 \<or> lastTargetDist s < 0.3 \<or> \<bar>distToPath s\<bar> > 1.0
             then \<bar>trackerDiffDelta s\<bar> / pi * 180 \<le> TRANSITION_ANGLE c
             else \<bar>trackerDiffDelta s\<bar> / pi * 180 < 45);
          fits2 = (if \<not> fits1 \<or> \<not> angleToTargetPrecise s then False else fits1);
          fits3 = (if dockTimer s \<or> unDockTimer s then True else fits2)
      in s\<lparr>angleToTargetFits := fits3\<rparr>)"

text \<open>\<^verbatim>\<open>rotateToTarget()\<close>, statement by statement.\<close>

definition rotateToTarget :: "config \<Rightarrow> tracker \<Rightarrow> tracker" where
  "rotateToTarget c s0 =
     (let s1 = (if \<not> angleToTargetFits s0 then s0\<lparr>angleToTargetPrecise := False\<rparr> else s0);
          s2 = s1\<lparr>linear := 0\<rparr>;
          deg = \<bar>trackerDiffDelta s2\<bar> / pi * 180;
          s3 = (if ROTATION_RAMP c
                then s2\<lparr>angular :=
                        constrain (\<bar>trackerDiffDelta s2\<bar> + ROTATION_RAMP_MIN c / 180 * pi)
                          (ROTATION_RAMP_MIN c / 180 * pi) (ROTATION_RAMP_MAX c / 180 * pi)\<rparr>
                else
                  (let a1 = (if deg \<ge> ANGLEDIFF1 c
                             then ROTATETOTARGETSPEED1 c / 180 * pi else angular s2);
                       a2 = (if deg < ANGLEDIFF1 c
                             then ROTATETOTARGETSPEED2 c / 180 * pi else a1);
                       a3 = (if deg \<le> ANGLEDIFF2 c
                             then ROTATETOTARGETSPEED3 c / 180 * pi else a2)
                   in s2\<lparr>angular := a3\<rparr>));
          s4 = (if trackerDiffDelta s3 < 0 then s3\<lparr>angular := angular s3 * (- 1)\<rparr> else s3);
          s5 = (if deg < ANGLEPRECISE c
                then (let t = emit ResetStateEstimation (s4\<lparr>angular := 0\<rparr>)
                      in if CurrRot t = 0 then t\<lparr>angleToTargetPrecise := True\<rparr> else t)
                else s4);
          s6 = (if \<bar>CurrSpeed s5\<bar> > 0 then s5\<lparr>angular := 0\<rparr> else s5)
      in s6)"

subsection \<open>The Stanley controller\<close>

text \<open>
  \<^verbatim>\<open>stanleyTracker()\<close>. The gains \<open>k\<close> and \<open>p\<close> are function-static but written before
  they are read in every call, so they are local here.
\<close>

definition stanleyGains :: "config \<Rightarrow> helpers \<Rightarrow> world \<Rightarrow> tracker \<Rightarrow> real \<times> real" where
  "stanleyGains c h w s =
     (if MAP_STANLEY_CONTROL c
      then
        (let k0 = arduino_map h (\<bar>CurrSpeed s\<bar> * 1000) (MOTOR_MIN_SPEED c * 1000)
                    (MOTOR_MAX_SPEED c * 1000) (stanleyTrackingSlowK s * 1000)
                    (stanleyTrackingNormalK s * 1000);
             p0 = arduino_map h (\<bar>CurrSpeed s\<bar> * 1000) (MOTOR_MIN_SPEED c * 1000)
                    (MOTOR_MAX_SPEED c * 1000) (stanleyTrackingSlowP s * 1000)
                    (stanleyTrackingNormalP s * 1000);
             k1 = k0 / 1000;
             p1 = p0 / 1000
         in (max (stanleyTrackingSlowK s) (min (stanleyTrackingNormalK s) k1),
             max (stanleyTrackingSlowP s) (min (stanleyTrackingNormalP s) p1)))
      else if trackSlow (maps w) \<and> trackslow_allowed s
        then (stanleyTrackingSlowK s, stanleyTrackingSlowP s)
        else (stanleyTrackingNormalK s, stanleyTrackingNormalP s))"

definition floatGains :: "config \<Rightarrow> world \<Rightarrow> tracker \<Rightarrow> tracker" where
  "floatGains c w s0 =
     (if MAP_STANLEY_CONTROL c \<and> (solution (gps w) = SOL_FLOAT \<or> solution (gps w) = SOL_INVALID)
      then s0\<lparr>stanleyTrackingNormalK := STANLEY_FLOAT_K_NORMAL c,
              stanleyTrackingNormalP := STANLEY_FLOAT_P_NORMAL c,
              stanleyTrackingSlowK := STANLEY_FLOAT_K_SLOW c,
              stanleyTrackingSlowP := STANLEY_FLOAT_P_SLOW c\<rparr>
      else s0)"

definition stanleyTracker :: "config \<Rightarrow> helpers \<Rightarrow> world \<Rightarrow> tracker \<Rightarrow> tracker" where
  "stanleyTracker c h w s0 =
     (let s1 = floatGains c w s0;
          (k, p) = stanleyGains c h w s1;
          a = p * trackerDiffDelta s1 + atan2 (k * lateralError s1) (0.001 + \<bar>CurrSpeed s1\<bar>)
      in s1\<lparr>angular := max (- pi / 6) (min (pi / 6) a)\<rparr>)"

subsection \<open>Speed selection\<close>

text \<open>The table \<^verbatim>\<open>linearSpeed[aLen]\<close> of \<^verbatim>\<open>linearSpeedState()\<close>, in its order.\<close>

definition linearSpeed :: "config \<Rightarrow> real list" where
  "linearSpeed c =
     [FLOATSPEED c, NEARWAYPOINTSPEED c, SONARSPEED c, OVERLOADSPEED c, KEEPSLOWSPEED c,
      RETRYSLOWSPEED c, TRACKSLOWSPEED c, DOCK_NO_ROTATION_SPEED c, DOCKPATHSPEED c,
      DOCKSPEED c]"

text \<open>
  The array \<^verbatim>\<open>linearBool[aLen]\<close>: the ten assignments of lines 212 to 221
  (\<open>capConditions\<close>), then the override of entry 1 under \<^verbatim>\<open>DISTANCE_RAMP\<close> (line 223).
  At this point \<^verbatim>\<open>trackslow_allowed\<close> has just been set to true.
\<close>

definition capConditions :: "config \<Rightarrow> world \<Rightarrow> tracker \<Rightarrow> bool list" where
  "capConditions c w s =
     [solution (gps w) = SOL_FLOAT,
      targetDist s < NEARWAYPOINTDISTANCE c \<or> lastTargetDist s < NEARWAYPOINTDISTANCE c,
      sonar_nearObstacle w,
      motorLeftOverload (motor w) \<or> motorRightOverload (motor w) \<or> motorMowOverload (motor w),
      keepslow (motor w),
      retryslow (motor w),
      trackSlow (maps w) \<and> trackslow_allowed s,
      dockTimer s \<or> unDockTimer s,
      isAtDockPath (maps w),
      isGoingToDockPath (maps w)]"

definition linearBool :: "config \<Rightarrow> world \<Rightarrow> tracker \<Rightarrow> bool list" where
  "linearBool c w s =
     (let b = capConditions c w s in if DISTANCE_RAMP c then b[1 := False] else b)"

text \<open>
  The selection loop \<^verbatim>\<open>for (speedIndex = 0; speedIndex < aLen; speedIndex++)\<close> over the
  pairs (flag, speed), carrying \<^verbatim>\<open>speedIndex\<close>, \<^verbatim>\<open>linear\<close> and \<^verbatim>\<open>chosenIndex\<close>.
\<close>

fun chooseLowest :: "(bool \<times> real) list \<Rightarrow> nat \<Rightarrow> real \<times> nat \<Rightarrow> real \<times> nat" where
  "chooseLowest [] speedIndex (lin, chosen) = (lin, chosen)"
| "chooseLowest ((b, v) # rest) speedIndex (lin, chosen) =
     chooseLowest rest (Suc speedIndex)
       (if b then (if v < lin then (v, speedIndex) else (lin, chosen)) else (lin, chosen))"

text \<open>
  The value of \<^verbatim>\<open>linear\<close> and \<^verbatim>\<open>chosenIndex\<close> when the loop ends: the speed-cap stage.
\<close>

definition speedCap :: "config \<Rightarrow> world \<Rightarrow> tracker \<Rightarrow> real \<times> nat" where
  "speedCap c w s =
     chooseLowest (zip (linearBool c w s) (linearSpeed c)) 0 (setSpeed s, chosenIndex s)"

text \<open>
  \<^verbatim>\<open>distanceRamp(linear)\<close>: the returned speed and the static \<^verbatim>\<open>wasStraight\<close>.
  (A zero \<^verbatim>\<open>setSpeed\<close> makes the firmware divide a float by zero; that case is outside
  the theorems below.)
\<close>

definition distanceRamp :: "config \<Rightarrow> helpers \<Rightarrow> tracker \<Rightarrow> real \<Rightarrow> real \<times> bool" where
  "distanceRamp c h s lin =
     (let maxSpeed = lin * 1000;
          minSpeed0 = DISTANCE_RAMP_MINSPEED c * 1000;
          maxDist0 = (lin * NEARWAYPOINTDISTANCE c / setSpeed s) * 1000;
          minDist = 0;
          approaching = (targetDist s \<le> lastTargetDist s);
          maxDist = (if approaching then maxDist0 + maxSpeed else maxDist0);
          actDist0 = (if approaching then targetDist s else lastTargetDist s);
          minSpeed = (if approaching
                      then (if straight s then TRANSITION_SPEED c * 1000 else minSpeed0)
                      else (if wasStraight s then TRANSITION_SPEED c * 1000 else minSpeed0));
          wasStraight' = (if approaching then straight s else wasStraight s);
          actDist1 = actDist0 * 1000;
          actDist = (if targetDist s + lastTargetDist s < maxDist then actDist1 * 2 else actDist1);
          rampSpeed0 = arduino_map h actDist minDist maxDist minSpeed maxSpeed;
          rampSpeed1 = constrain rampSpeed0 minSpeed maxSpeed
      in (rampSpeed1 / 1000, wasStraight'))"

definition linearSpeedState :: "config \<Rightarrow> helpers \<Rightarrow> world \<Rightarrow> tracker \<Rightarrow> tracker" where
  "linearSpeedState c h w s0 =
     (let s1 = s0\<lparr>trackslow_allowed := True\<rparr>;
          (lin, chosen) = speedCap c w s1;
          s2 = s1\<lparr>linear := lin, chosenIndex := chosen\<rparr>;
          s3 = (if DISTANCE_RAMP c \<and>
                   (targetDist s2 < 2 * NEARWAYPOINTDISTANCE c \<or>
                    lastTargetDist s2 < 2 * NEARWAYPOINTDISTANCE c)
                then (let (r, w) = distanceRamp c h s2 (linear s2)
                      in s2\<lparr>linear := r, wasStraight := w\<rparr>)
                else s2);
          s4 = s3\<lparr>chosenIndexl := chosenIndex s3\<rparr>
      in if trackReverse (maps w) then s4\<lparr>linear := linear s4 * (- 1)\<rparr> else s4)"

subsection \<open>GPS conditions and kidnap detection\<close>

definition allowedPathTolerance :: "config \<Rightarrow> helpers \<Rightarrow> world \<Rightarrow> estimator \<Rightarrow> real" where
  "allowedPathTolerance c h w est =
     (if (isUndocking (maps w) \<or> isDocking (maps w)) \<and>
         distance h (fst (getDockingPos (maps w))) (snd (getDockingPos (maps w))) (stateX est) (stateY est)
           < KIDNAP_DETECT_DISTANCE_DOCK_UNDOCK c
      then KIDNAP_DETECT_ALLOWED_PATH_TOLERANCE_DOCK_UNDOCK c
      else KIDNAP_DETECT_ALLOWED_PATH_TOLERANCE c)"

definition gpsConditions ::
  "config \<Rightarrow> helpers \<Rightarrow> world \<Rightarrow> estimator \<Rightarrow> robot \<Rightarrow> tracker \<Rightarrow> tracker" where
  "gpsConditions c h w est rob s0 =
     (let s1 = (if fixTimeout rob \<noteq> 0 \<and>
                   real (unat (millis w)) >
                     real (unat (lastFixTime est)) + real_of_int (fixTimeout rob) * 1000
                then emit OnGpsFixTimeout s0 else s0);
          s2 = (if DOCK_GPS_REBOOT c \<and> shouldGpsReboot (maps w) \<and> isAtGpsRebootPoint (maps w)
                then emit OnDockGpsReboot s1 else s1)
      in if KIDNAP_DETECT c
         then (if \<bar>distToPath s2\<bar> > allowedPathTolerance c h w est
               then (if \<not> stateKidnapped s2
                     then emit (OnKidnapped True) (s2\<lparr>stateKidnapped := True\<rparr>)
                     else s2)
               else (if stateKidnapped s2
                     then emit (OnKidnapped False) (s2\<lparr>stateKidnapped := False\<rparr>)
                     else s2))
         else s2)"

subsection \<open>Dock and undock phases without rotation\<close>

text \<open>
  The call of \<^verbatim>\<open>triggerObstacle()\<close> (\<^verbatim>\<open>robot.cpp\<close>) from the tracker, as entries of
  the tracker's effect trace.
\<close>

definition callTriggerObstacle :: "tracker \<Rightarrow> tracker" where
  "callTriggerObstacle s = emit OnObstacle (emit ResetMotion s)"

definition noDockRotation :: "config \<Rightarrow> world \<Rightarrow> tracker \<Rightarrow> tracker" where
  "noDockRotation c w s0 =
     (if \<not> DOCK_NO_ROTATION c then s0
      else if wayMode (maps w) \<noteq> WAY_DOCK then s0
      else if isTargetingLastDockPoint (maps w) \<and> \<not> isUndocking (maps w)
      then
        (let s1 = (if \<not> dockTimer s0
                   then s0\<lparr>reachedPointBeforeDockTime := millis w, dockTimer := True\<rparr>
                   else s0)
         in if dockTimer s1
            then
              (let s2 = (if lastTargetDist s1 > DOCK_NO_ROTATION_DISTANCE c
                         then (let t = s1\<lparr>angular := 0, linear := DOCK_NO_ROTATION_SPEED c,
                                          targetReached := False\<rparr>
                               in if \<not> buzzer_isPlaying w then emit BuzzerSoundError t else t)
                         else s1)
               in if millis w > reachedPointBeforeDockTime s2 + DOCK_NO_ROTATION_TIMER c
                  then callTriggerObstacle (s2\<lparr>dockTimer := False\<rparr>)
                  else s2)
            else s1)
      else s0\<lparr>dockTimer := False\<rparr>)"

definition noUnDockRotation :: "config \<Rightarrow> world \<Rightarrow> tracker \<Rightarrow> tracker" where
  "noUnDockRotation c w s0 =
     (if \<not> DOCK_NO_ROTATION c then s0
      else if wayMode (maps w) \<noteq> WAY_DOCK then s0
      else if isBetweenLastAndNextToLastDockPoint (maps w) \<and> isUndocking (maps w)
      then
        (let s1 = (if \<not> unDockTimer s0
                   then s0\<lparr>reachedPointBeforeDockTime := millis w, unDockTimer := True\<rparr>
                   else s0)
         in if unDockTimer s1
            then
              (let s2 = s1\<lparr>angular := 0, linear := - DOCK_NO_ROTATION_SPEED c\<rparr>;
                   s3 = (if \<not> buzzer_isPlaying w then emit BuzzerSoundError s2 else s2)
               in if millis w > reachedPointBeforeDockTime s3 + DOCK_NO_ROTATION_TIMER c
                  then emit (OnWaitCommand 15000)
                         (emit DockPointsIdxDecrement (s3\<lparr>unDockTimer := False\<rparr>))
                  else s3)
            else s1)
      else s0\<lparr>unDockTimer := False\<rparr>)"

subsection \<open>Mowing permission\<close>

text \<open>
  The numeric value of a \<^verbatim>\<open>WayType\<close> constant (declaration order of the enumeration):
  \<^verbatim>\<open>checkMowAllowed()\<close> uses two of the constants as truth values.
\<close>

fun wayValue :: "WayType \<Rightarrow> nat" where
  "wayValue WAY_PERIMETER = 0"
| "wayValue WAY_EXCLUSION = 1"
| "wayValue WAY_DOCK = 2"
| "wayValue WAY_MOW = 3"
| "wayValue WAY_FREE = 4"

definition checkMowAllowed :: "config \<Rightarrow> world \<Rightarrow> robot \<Rightarrow> tracker \<Rightarrow> tracker" where
  "checkMowAllowed c w rob s0 =
     (let s1 = s0\<lparr>mow := False\<rparr>;
          s2 = (if MOW_START_AT_WAYMOW c \<and> \<not> oneTrigger s1
                then (if wayMode (maps w) = WAY_MOW
                      then s1\<lparr>mow := True, oneTrigger := True\<rparr> else s1)
                else (if wayMode (maps w) = WAY_MOW \<or> wayValue WAY_EXCLUSION \<noteq> 0
                         \<or> wayValue WAY_PERIMETER \<noteq> 0
                      then s1\<lparr>mow := True\<rparr> else s1))
      in if stateOp rob = OP_DOCK \<or> shouldDock (maps w)
         then s2\<lparr>mow := False, oneTrigger := False\<rparr> else s2)"

subsection \<open>The tracking tick\<close>

text \<open>\<^verbatim>\<open>robotShouldRotate()\<close> and \<^verbatim>\<open>detectLift()\<close> of \<^verbatim>\<open>robot.cpp\<close>.\<close>

definition robotShouldRotate :: "config \<Rightarrow> world \<Rightarrow> bool" where
  "robotShouldRotate c w =
     (\<bar>linearSpeedSet (motor w)\<bar> < MOTOR_MIN_SPEED c \<and>
      \<bar>angularSpeedSet (motor w)\<bar> / pi * 180 > 4)"

definition detectLift :: "config \<Rightarrow> world \<Rightarrow> bool" where
  "detectLift c w = (if ENABLE_LIFT_DETECTION c then liftDriver_triggered w else False)"

text \<open>Lines 418 to 433 of \<^verbatim>\<open>trackLine\<close>: the tracking errors of this tick.\<close>

definition trackingErrors ::
  "config \<Rightarrow> helpers \<Rightarrow> world \<Rightarrow> estimator \<Rightarrow> tracker \<Rightarrow> tracker" where
  "trackingErrors c h w est s =
     (let tg = targetPoint (maps w);
          lt = lastTargetPoint (maps w);
          d0 = pointsAngle h (stateX est) (stateY est) (fst tg) (snd tg);
          d1 = (if trackReverse (maps w) then scalePI h (d0 + pi) else d0);
          d2 = scalePIangles h d1 (stateDelta est)
      in s\<lparr>target := tg, lastTarget := lt,
           CurrSpeed := linearSpeedSet (motor w), CurrRot := angularSpeedSet (motor w),
           linear := 0, angular := 0,
           targetDelta := d2,
           trackerDiffDelta := distancePI h (stateDelta est) d2,
           lateralError := distanceLineInfinite h (stateX est) (stateY est) (fst lt) (snd lt) (fst tg) (snd tg),
           distToPath := distanceLine h (stateX est) (stateY est) (fst lt) (snd lt) (fst tg) (snd tg),
           targetDist := distanceToTargetPoint (maps w) (stateX est) (stateY est),
           lastTargetDist := distanceToLastTargetPoint (maps w) (stateX est) (stateY est),
           targetReached :=
             (distanceToTargetPoint (maps w) (stateX est) (stateY est) < TARGET_REACHED_TOLERANCE c)\<rparr>)"

text \<open>Lines 436 to 441: the gate chooses the sub-controller.\<close>

definition selectController :: "config \<Rightarrow> helpers \<Rightarrow> world \<Rightarrow> tracker \<Rightarrow> tracker" where
  "selectController c h w s =
     (let g = AngleToTargetFits c s
      in if \<not> angleToTargetFits g then rotateToTarget c g
         else stanleyTracker c h w (linearSpeedState c h w g))"

text \<open>
  Lines 460 to 504, under \<^verbatim>\<open>runControl\<close> (the \<^verbatim>\<open>DEBUG_LINETRACKER\<close> block only prints).
\<close>

definition runControlBlock :: "config \<Rightarrow> world \<Rightarrow> tracker \<Rightarrow> tracker" where
  "runControlBlock c w s0 =
     (let s1 = s0\<lparr>shouldRotate := robotShouldRotate c w\<rparr>;
          s2 = (if detectLift c w then s1\<lparr>mow := False, linear := 0, angular := 0\<rparr> else s1);
          s3 = (if mow s2 \<noteq> switchedOn (motor w) \<and> enableMowMotor (motor w)
                then emit (SetMowState (mow s2)) s2 else s2)
      in emit (SetLinearAngularSpeed (linear s3) (angular s3) True) s3)"

text \<open>Lines 506 to 513.\<close>

definition targetReachedBlock :: "world \<Rightarrow> tracker \<Rightarrow> tracker" where
  "targetReachedBlock w s0 =
     (if targetReached s0
      then (let s1 = emit OnTargetReached s0;
                s2 = s1\<lparr>straight := nextPointIsStraight (maps w)\<rparr>;
                s3 = emit NextPoint s2
            in if \<not> nextPoint (maps w) then emit OnNoFurtherWaypoints s3 else s3)
      else s0)"

definition trackLine ::
  "config \<Rightarrow> helpers \<Rightarrow> world \<Rightarrow> estimator \<Rightarrow> robot \<Rightarrow> bool \<Rightarrow> tracker \<Rightarrow> tracker" where
  "trackLine c h w est rob runControl s0 =
     (let s1 = trackingErrors c h w est s0;
          s2 = selectController c h w s1;
          s3 = gpsConditions c h w est rob s2;
          s4 = noDockRotation c w s3;
          s5 = noUnDockRotation c w s4;
          s6 = checkMowAllowed c w rob s5;
          s7 = (if runControl then runControlBlock c w s6 else s6)
      in targetReachedBlock w s7)"

section \<open>StateEstimator.cpp\<close>

text \<open>The Arduino macro \<^verbatim>\<open>sq(x)\<close>.\<close>

definition sq :: "real \<Rightarrow> real" where
  "sq x = x * x"

text \<open>
  Lines 326 to 352 of \<^verbatim>\<open>computeRobotState\<close>: the branch \<^verbatim>\<open>else if (distGPS > 0.1)\<close>,
  which derives a heading from the GPS displacement and fuses it.
\<close>

definition gpsHeading :: "helpers \<Rightarrow> world \<Rightarrow> real \<Rightarrow> real \<Rightarrow> estimator \<Rightarrow> real" where
  "gpsHeading h w posN posE s =
     (let g = scalePI h (atan2 (posN - lastPosN s) (posE - lastPosE s))
      in if linearSpeedSet (motor w) < 0 then scalePI h (g + pi) else g)"

definition fuseGpsHeading :: "helpers \<Rightarrow> world \<Rightarrow> real \<Rightarrow> real \<Rightarrow> estimator \<Rightarrow> estimator" where
  "fuseGpsHeading h w posN posE s0 =
     (let diffLastPosDelta = distancePI h (stateDelta s0) (lastPosDelta s0);
          s3 =
            (if \<bar>diffLastPosDelta\<bar> / pi * 180 < 10
             then
               (if \<bar>linearSpeedSet (motor w)\<bar> > 0 \<and> \<bar>angularSpeedSet (motor w)\<bar> / pi * 180 < 45
                then
                  (let s1 = s0\<lparr>stateDeltaGPS := gpsHeading h w posN posE s0\<rparr>;
                       diffDelta = distancePI h (stateDelta s1) (stateDeltaGPS s1)
                   in if (solution (gps w) = SOL_FIXED \<and> useGPSfixForDeltaEstimation (maps w))
                         \<or> (solution (gps w) = SOL_FLOAT \<and> useGPSfloatForDeltaEstimation (maps w))
                      then
                        (if \<bar>diffDelta / pi * 180\<bar> > 45
                         then s1\<lparr>stateDelta := stateDeltaGPS s1, stateDeltaIMU := 0\<rparr>
                         else
                           (let s2 = s1\<lparr>stateDeltaGPS :=
                                          scalePIangles h (stateDeltaGPS s1) (stateDelta s1)\<rparr>
                            in s2\<lparr>stateDelta :=
                                    scalePI h (fusionPI h 0.9 (stateDelta s2) (stateDeltaGPS s2))\<rparr>))
                      else s1)
                else s0)
             else s0)
      in s3\<lparr>lastPosN := posN, lastPosE := posE, lastPosDelta := stateDelta s3\<rparr>)"

text \<open>Line 314: the displacement since the last accepted position.\<close>

definition distGPS :: "real \<Rightarrow> real \<Rightarrow> estimator \<Rightarrow> real" where
  "distGPS posN posE s = sqrt (sq (posN - lastPosN s) + sq (posE - lastPosE s))"

text \<open>
  Lines 303 to 367: the block run when a new solution of quality FIXED or FLOAT is
  available. \<open>posN\<close> and \<open>posE\<close> are the local coordinates computed before it.
\<close>

definition gpsUpdate :: "helpers \<Rightarrow> world \<Rightarrow> real \<Rightarrow> real \<Rightarrow> estimator \<Rightarrow> estimator" where
  "gpsUpdate h w posN posE s0 =
     (if gps_solutionAvail s0 \<and> (solution (gps w) = SOL_FIXED \<or> solution (gps w) = SOL_FLOAT)
      then
        (let s1 = s0\<lparr>gps_solutionAvail := False, lastSolutionTime := solutionTime s0\<rparr>;
             s2 = s1\<lparr>solutionTime := millis w\<rparr>;
             s3 = s2\<lparr>solutionTimeDelta := solutionTime s2 - lastSolutionTime s2\<rparr>;
             s4 = s3\<lparr>stateGroundSpeed := groundSpeed (gps w)\<rparr>;
             d = distGPS posN posE s4;
             s6 =
               (if d > 0.3 \<or> resetLastPos s4
                then
                  (let s5 = (if d > 0.3 \<and> solutionTimeDelta s4 < 350
                             then s4\<lparr>gpsJump := True, statGPSJumps := statGPSJumps s4 + 1\<rparr>
                             else s4)
                   in s5\<lparr>resetLastPos := False, lastPosN := posN, lastPosE := posE,
                         lastPosDelta := stateDelta s5\<rparr>)
                else if d > 0.1 then fuseGpsHeading h w posN posE s4
                else s4)
         in if solution (gps w) = SOL_FIXED
            then
              (let s7 = s6\<lparr>lastFixTime := millis w\<rparr>
               in if useGPSfixForPosEstimation (maps w)
                  then s7\<lparr>stateX := posE, stateY := posN\<rparr> else s7)
            else
              (if useGPSfloatForPosEstimation (maps w)
               then s6\<lparr>stateX := posE, stateY := posN\<rparr> else s6))
      else s0)"

text \<open>
  Lines 299 to 301 and 369 to 427: the reset request at low commanded speed, then dead
  reckoning (lines 374 to 380: the heading advance) and the yaw-rate diagnostics.
  (A zero \<^verbatim>\<open>deltaTime\<close> makes the firmware divide a float by zero; no theorem below
  depends on the diagnostics.)
\<close>

definition requestReset :: "config \<Rightarrow> world \<Rightarrow> estimator \<Rightarrow> estimator" where
  "requestReset c w s =
     (if \<bar>linearSpeedSet (motor w)\<bar> < MOTOR_MIN_SPEED c / 2 then s\<lparr>resetLastPos := True\<rparr> else s)"

definition advanceHeading :: "helpers \<Rightarrow> world \<Rightarrow> real \<Rightarrow> estimator \<Rightarrow> estimator" where
  "advanceHeading h w deltaOdometry s =
     (if imuDriver_imuFound w \<and> useIMU (maps w)
      then s\<lparr>stateDelta := scalePI h (stateDelta s + stateDeltaIMU s)\<rparr>
      else s\<lparr>stateDelta := scalePI h (stateDelta s + deltaOdometry)\<rparr>)"

text \<open>Lines 370 to 372: the position advances along the heading.\<close>

definition advancePosition :: "robot \<Rightarrow> real \<Rightarrow> estimator \<Rightarrow> estimator" where
  "advancePosition rob distOdometry s0 =
     (let s1 = s0\<lparr>stateX := stateX s0 + distOdometry / 100 * cos (stateDelta s0)\<rparr>;
          s2 = s1\<lparr>stateY := stateY s1 + distOdometry / 100 * sin (stateDelta s1)\<rparr>
      in if stateOp rob = OP_MOW
         then s2\<lparr>statMowDistanceTraveled := statMowDistanceTraveled s2 + distOdometry / 100\<rparr>
         else s2)"

text \<open>Lines 382 to 401: the heading in degrees and the two low-pass yaw rates.\<close>

definition yawRates :: "world \<Rightarrow> real \<Rightarrow> real \<Rightarrow> estimator \<Rightarrow> estimator" where
  "yawRates w dt deltaOdometry s4 =
     (let lp2 = 1 - 2 * dt;
          s5 = s4\<lparr>stateHeading := (stateDelta s4 - pi / 2) * 180 / pi\<rparr>;
          s6 = (if imuDriver_imuFound w
                then s5\<lparr>stateDeltaSpeedIMU :=
                        lp2 * stateDeltaSpeedIMU s5 + (1 - lp2) * stateDeltaIMU s5 / dt\<rparr>
                else s5);
          s7 = s6\<lparr>stateDeltaSpeedWheels :=
                    lp2 * stateDeltaSpeedWheels s6 + (1 - lp2) * deltaOdometry / dt\<rparr>
      in s7\<lparr>stateDeltaIMU := 0\<rparr>)"

text \<open>Lines 403 to 412: the yaw speed and the difference between IMU and wheels.\<close>

definition yawSpeed :: "world \<Rightarrow> real \<Rightarrow> estimator \<Rightarrow> estimator" where
  "yawSpeed w dt s8 =
     (let lp1 = 1 - 1 * dt;
          lp3 = 1 - 3 * dt;
          s9 = s8\<lparr>stateDeltaSpeed := (stateDelta s8 - stateDeltaLast s8) / dt\<rparr>;
          s10 = s9\<lparr>stateDeltaSpeedLP :=
                     lp3 * stateDeltaSpeedLP s9 + (1 - lp3) * \<bar>stateDeltaSpeed s9\<bar>\<rparr>;
          s11 = s10\<lparr>stateDeltaLast := stateDelta s10\<rparr>
      in if imuDriver_imuFound w
         then (let t = s11\<lparr>diffIMUWheelYawSpeed :=
                           stateDeltaSpeedIMU s11 - stateDeltaSpeedWheels s11\<rparr>
               in t\<lparr>diffIMUWheelYawSpeedLP :=
                      lp1 * diffIMUWheelYawSpeedLP t + (1 - lp1) * \<bar>diffIMUWheelYawSpeed t\<bar>\<rparr>)
         else s11)"

definition deadReckoning ::
  "helpers \<Rightarrow> world \<Rightarrow> robot \<Rightarrow> real \<Rightarrow> real \<Rightarrow> real \<Rightarrow> estimator \<Rightarrow> estimator" where
  "deadReckoning h w rob dt distOdometry deltaOdometry s0 =
     (let s3 = advancePosition rob distOdometry s0;
          s4 = advanceHeading h w deltaOdometry s3;
          s8 = yawRates w dt deltaOdometry s4;
          s12 = yawSpeed w dt s8
      in s12\<lparr>timeLastState := millis w\<rparr>)"

text \<open>
  \<^verbatim>\<open>computeRobotState()\<close>. Lines 272 to 280: the odometry of the tick; the tick
  differences are \<^verbatim>\<open>unsigned long\<close> differences read as \<^verbatim>\<open>long\<close>. The pair is
  (\<^verbatim>\<open>distOdometry\<close>, \<^verbatim>\<open>deltaOdometry\<close>).
\<close>

definition odometry :: "world \<Rightarrow> estimator \<Rightarrow> real \<times> real" where
  "odometry w s0 =
     (let leftDelta = sint (motorLeftTicks (motor w) - stateLeftTicks s0);
          rightDelta = sint (motorRightTicks (motor w) - stateRightTicks s0);
          distLeft = real_of_int leftDelta / ticksPerCm (motor w);
          distRight = real_of_int rightDelta / ticksPerCm (motor w)
      in ((distLeft + distRight) / 2, - (distLeft - distRight) / wheelBaseCm (motor w)))"

definition localPosition :: "helpers \<Rightarrow> world \<Rightarrow> robot \<Rightarrow> real \<times> real" where
  "localPosition h w rob =
     (if absolutePosSource rob
      then relativeLL h (absolutePosSourceLat rob) (absolutePosSourceLon rob) (lat (gps w)) (lon (gps w))
      else (relPosN (gps w), relPosE (gps w)))"

text \<open>The state of the tick after line 367: the GPS block has run, dead reckoning has not.\<close>

definition gpsStage :: "config \<Rightarrow> helpers \<Rightarrow> world \<Rightarrow> robot \<Rightarrow> estimator \<Rightarrow> estimator" where
  "gpsStage c h w rob s0 =
     (let s1 = s0\<lparr>stateLeftTicks := motorLeftTicks (motor w),
                  stateRightTicks := motorRightTicks (motor w)\<rparr>;
          (posN, posE) = localPosition h w rob;
          s2 = requestReset c w s1
      in gpsUpdate h w posN posE s2)"

definition computeRobotState :: "config \<Rightarrow> helpers \<Rightarrow> world \<Rightarrow> robot \<Rightarrow> estimator \<Rightarrow> estimator" where
  "computeRobotState c h w rob s0 =
     (let (distOdometry, deltaOdometry) = odometry w s0;
          dt = real (unat (millis w - timeLastState s0)) / 1000
      in deadReckoning h w rob dt distOdometry deltaOdometry (gpsStage c h w rob s0))"

section \<open>robot.cpp\<close>

definition log :: "effect \<Rightarrow> robot \<Rightarrow> robot" where
  "log e r = r\<lparr>trace := trace r @ [e]\<rparr>"

text \<open>
  \<^verbatim>\<open>setOperation(op, allowRepeat)\<close>: the hand-over to the active operation
  (\<^verbatim>\<open>changeOperationTypeByOperator\<close>, then \<^verbatim>\<open>saveState\<close>) is one entry of the trace.
\<close>

definition setOperation :: "config \<Rightarrow> OperationType \<Rightarrow> bool \<Rightarrow> robot \<Rightarrow> robot" where
  "setOperation c op allowRepeat r0 =
     (if stateOp r0 = op \<and> \<not> allowRepeat then r0
      else
        (let r1 = r0\<lparr>stateOp := op\<rparr>;
             r2 = (if stateOp r1 = OP_IDLE \<or> stateOp r1 = OP_CHARGE \<or> stateChargerConnected r1
                   then r1\<lparr>robot_control_cycle := ROBOT_IDLE_CYCLE c\<rparr>
                   else r1\<lparr>robot_control_cycle := ROBOT_CONTROL_CYCLE c\<rparr>)
         in log (SetOperation (stateOp r2)) r2))"

definition robotShouldMove :: "config \<Rightarrow> world \<Rightarrow> bool" where
  "robotShouldMove c w = (\<bar>linearSpeedSet (motor w)\<bar> \<ge> MOTOR_MIN_SPEED c)"

text \<open>
  \<^verbatim>\<open>resetMotion()\<close> and \<^verbatim>\<open>triggerObstacle()\<close>: the three timers of \<^verbatim>\<open>robot.cpp\<close> are
  set; the reset of the estimator's diagnostics and the event are entries of the trace.
\<close>

definition resetMotion :: "world \<Rightarrow> robot \<Rightarrow> robot" where
  "resetMotion w r =
     log ResetStateEstimation
       (r\<lparr>linearMotionStartTime := millis w, angularMotionStartTime := millis w,
          overallMotionTimeout := millis w + 10000\<rparr>)"

definition triggerObstacle :: "world \<Rightarrow> robot \<Rightarrow> robot" where
  "triggerObstacle w r = log OnObstacle (resetMotion w r)"

definition setObstaclePosition :: "estimator \<Rightarrow> real \<Rightarrow> real \<Rightarrow> real \<Rightarrow> robot \<Rightarrow> robot" where
  "setObstaclePosition est a d diam r = log (SetObstaclePosition (stateX est) (stateY est) a d diam) r"

text \<open>The accessors of \<^verbatim>\<open>bumper.cpp\<close> that \<^verbatim>\<open>detectObstacle\<close> calls.\<close>

definition bumper_obstacle :: "config \<Rightarrow> bumper \<Rightarrow> bool" where
  "bumper_obstacle c b = (if BUMPER_ENABLE c then outputLeftPressed b \<or> outputRightPressed b else False)"

definition bumper_obstacleLeft :: "config \<Rightarrow> bumper \<Rightarrow> bool" where
  "bumper_obstacleLeft c b = (if BUMPER_ENABLE c then outputLeftPressed b else False)"

text \<open>
  \<^verbatim>\<open>detectObstacle()\<close>, one definition for each cause, in the order of the source. Each
  returns \<open>Some\<close> of the function's result where the source returns, and \<open>None\<close> where
  it falls through to the next cause.
\<close>

definition obstacleLift :: "config \<Rightarrow> world \<Rightarrow> robot \<Rightarrow> (bool \<times> robot) option" where
  "obstacleLift c w r =
     (if ENABLE_LIFT_DETECTION c \<and> LIFT_OBSTACLE_AVOIDANCE c \<and>
         millis w > linearMotionStartTime r + BUMPER_DEADTIME c \<and> liftDriver_triggered w
      then Some (True, triggerObstacle w (log (StatCounter ''statMowLiftCounter'') r))
      else None)"

definition obstacleBumper :: "config \<Rightarrow> world \<Rightarrow> estimator \<Rightarrow> bumper \<Rightarrow> robot \<Rightarrow> (bool \<times> robot) option" where
  "obstacleBumper c w est b r =
     (if millis w > detectObstacle_lastBumperTime r + BUMPER_DEADTIME c \<and> bumper_obstacle c b
      then
        (let r1 = log (StatCounter ''statMowBumperCounter'') (r\<lparr>detectObstacle_lastBumperTime := millis w\<rparr>);
             r2 = (if bumper_obstacleLeft c b
                   then setObstaclePosition est 35 (MOWER_RADIUS_FRONT c) (OBSTACLE_DIAMETER c) r1
                   else setObstaclePosition est (- 35) (MOWER_RADIUS_FRONT c) (OBSTACLE_DIAMETER c) r1);
             r3 = setObstaclePosition est 0 (ESCAPE_REVERSE_WAY c) (OBSTACLE_DIAMETER c) r2
         in Some (True, triggerObstacle w r3))
      else None)"

definition obstacleSonar :: "config \<Rightarrow> world \<Rightarrow> estimator \<Rightarrow> robot \<Rightarrow> (bool \<times> robot) option" where
  "obstacleSonar c w est r =
     (if sonar_obstacle w \<and> wayMode (maps w) \<noteq> WAY_DOCK \<and> SONAR_TRIGGER_OBSTACLES c
      then Some (True,
             triggerObstacle w
               (setObstaclePosition est 0 (MOWER_RADIUS_FRONT c) (OBSTACLE_DIAMETER c)
                  (log (StatCounter ''statMowSonarCounter'') r)))
      else None)"

text \<open>
  The ground-speed check changes \<^verbatim>\<open>noGPSSpeedTime\<close> also when it falls through, so it
  returns the robot state in both cases.
\<close>

definition obstacleGpsSpeed :: "config \<Rightarrow> world \<Rightarrow> estimator \<Rightarrow> robot \<Rightarrow> bool option \<times> robot" where
  "obstacleGpsSpeed c w est r =
     (if millis w > linearMotionStartTime r + GPS_SPEED_DEADTIME c \<and>
         stateGroundSpeed est < \<bar>linearSpeedSet (motor w) / 4\<bar>
      then
        (let r1 = r\<lparr>noGPSSpeedTime := noGPSSpeedTime r + deltaTime r\<rparr>
         in if NO_GPS_OBSTACLE c \<and> gpsObstacleNotAllowed r1 then (Some False, r1)
            else if (GPS_SPEED_DETECTION c \<and> \<not> isAtDockPath (maps w)) \<and>
                    noGPSSpeedTime r1 > GPS_SPEED_DELAY c
            then (Some True,
                  triggerObstacle w
                    (setObstaclePosition est 0 (MOWER_RADIUS_FRONT c) (OBSTACLE_DIAMETER c)
                       (log (StatCounter ''statMowGPSMotionTimeoutCounter'') r1\<lparr>noGPSSpeedTime := 0\<rparr>)))
            else (None, r1))
      else (None, r))"

definition obstacleGpsMotion :: "config \<Rightarrow> world \<Rightarrow> estimator \<Rightarrow> robot \<Rightarrow> bool option \<times> robot" where
  "obstacleGpsMotion c w est r =
     (if millis w > nextGPSMotionCheckTime r \<or> millis w > overallMotionTimeout r
      then
        (let r1 = r\<lparr>nextGPSMotionCheckTime := millis w + GPS_MOTION_DETECTION_TIMEOUT c * 1000\<rparr>;
             r2 = r1\<lparr>overallMotionTimeout := millis w + 10000\<rparr>;
             dX = lastGPSMotionX r2 - stateX est;
             dY = lastGPSMotionY r2 - stateY est;
             delta = sqrt (sq dX + sq dY)
         in if delta < GPS_MOTION_DETECTION_DELTA c \<and> NO_GPS_OBSTACLE c \<and> gpsObstacleNotAllowed r2
            then (Some False, r2)
            else if delta < GPS_MOTION_DETECTION_DELTA c \<and> GPS_MOTION_DETECTION c
            then (Some True,
                  triggerObstacle w
                    (setObstaclePosition est 0 (MOWER_RADIUS_FRONT c) (OBSTACLE_DIAMETER c)
                       (log (StatCounter ''statMowGPSMotionTimeoutCounter'') r2)))
            else (None, r2\<lparr>lastGPSMotionX := stateX est, lastGPSMotionY := stateY est\<rparr>))
      else (None, r))"

definition obstacleImu :: "config \<Rightarrow> world \<Rightarrow> estimator \<Rightarrow> tracker \<Rightarrow> robot \<Rightarrow> (bool \<times> robot) option" where
  "obstacleImu c w est trk r =
     (if imuDriver_imuFound w \<and> targetDist trk > NEARWAYPOINTDISTANCE c / 2 \<and>
         lastTargetDist trk > NEARWAYPOINTDISTANCE c / 2 \<and>
         millis w > linearMotionStartTime r + BUMPER_DEADTIME c
      then
        (if \<not> robotShouldRotate c w \<and> \<bar>diffIMUWheelYawSpeedLP est\<bar> > 12 / 180 * pi
         then Some (True,
                triggerObstacle w
                  (setObstaclePosition est 0 (MOWER_RADIUS_BACK c) (OBSTACLE_DIAMETER c)
                     (log (StatCounter ''statMowDiffIMUWheelYawSpeedCounter'') r)))
         else if \<not> robotShouldRotate c w \<and> \<bar>stateDeltaSpeedIMU est\<bar> > 12 / 180 * pi \<and>
                 \<bar>stateDeltaSpeedWheels est\<bar> < \<bar>stateDeltaSpeedIMU est / 3\<bar>
         then Some (True,
                triggerObstacle w
                  (setObstaclePosition est 0 (MOWER_RADIUS_FRONT c) (OBSTACLE_DIAMETER c)
                     (log (StatCounter ''statMowDiffIMUWheelYawSpeedCounter'') r)))
         else None)
      else None)"

definition detectObstacle ::
  "config \<Rightarrow> world \<Rightarrow> estimator \<Rightarrow> tracker \<Rightarrow> bumper \<Rightarrow> robot \<Rightarrow> bool \<times> robot" where
  "detectObstacle c w est trk b r0 =
     (if \<not> robotShouldMove c w then (False, r0)
      else
        (let r1 = (if millis w > gpsObstacleNotAllowedTime r0
                   then r0\<lparr>gpsObstacleNotAllowed := False\<rparr> else r0)
         in case obstacleLift c w r1 of Some res \<Rightarrow> res
            | None \<Rightarrow>
          (case obstacleBumper c w est b r1 of Some res \<Rightarrow> res
            | None \<Rightarrow>
          (case obstacleSonar c w est r1 of Some res \<Rightarrow> res
            | None \<Rightarrow>
          (case obstacleGpsSpeed c w est r1 of (Some res, r2) \<Rightarrow> (res, r2)
            | (None, r2) \<Rightarrow>
          (case obstacleGpsMotion c w est r2 of (Some res, r3) \<Rightarrow> (res, r3)
            | (None, r3) \<Rightarrow>
          (case obstacleImu c w est trk r3 of Some res \<Rightarrow> res
            | None \<Rightarrow> (False, r3))))))))"

section \<open>bumper.cpp\<close>

text \<open>
  \<^verbatim>\<open>Bumper::run()\<close> on the bumper's globals and the globals of \<^verbatim>\<open>robot.cpp\<close> (it reads
  \<^verbatim>\<open>stateOp\<close> and calls \<^verbatim>\<open>setOperation\<close>).
\<close>

definition debounceLeft :: "config \<Rightarrow> world \<Rightarrow> bumper \<Rightarrow> bumper" where
  "debounceLeft c w b0 =
     (if inputLeftPressed b0
      then
        (let b1 = (if \<not> bumperLeft b0 then b0\<lparr>leftTrigTime := millis w, leftOnTimer := 0\<rparr> else b0);
             b2 = b1\<lparr>bumperLeft := True\<rparr>;
             b3 = b2\<lparr>leftOnTimer := leftOnTimer b2 + (millis w - lastBumperTime b2)\<rparr>
         in if millis w \<ge> leftTrigTime b3 + BUMPER_TRIGGER_DELAY c
            then b3\<lparr>outputLeftPressed := True\<rparr> else b3)
      else b0\<lparr>bumperLeft := False, outputLeftPressed := False\<rparr>)"

definition debounceRight :: "config \<Rightarrow> world \<Rightarrow> bumper \<Rightarrow> bumper" where
  "debounceRight c w b0 =
     (if inputRightPressed b0
      then
        (let b1 = (if \<not> bumperRight b0 then b0\<lparr>rightTrigTime := millis w, rightOnTimer := 0\<rparr> else b0);
             b2 = b1\<lparr>bumperRight := True\<rparr>;
             b3 = b2\<lparr>rightOnTimer := rightOnTimer b2 + (millis w - lastBumperTime b2)\<rparr>
         in if millis w \<ge> rightTrigTime b3 + BUMPER_TRIGGER_DELAY c
            then b3\<lparr>outputRightPressed := True\<rparr> else b3)
      else b0\<lparr>bumperRight := False, outputRightPressed := False\<rparr>)"

definition stuckDetection :: "config \<Rightarrow> bumper \<times> robot \<Rightarrow> bumper \<times> robot" where
  "stuckDetection c br =
     (let b = fst br; r = snd br
      in if (bumperRight b \<or> bumperLeft b) \<and>
            max (leftOnTimer b) (rightOnTimer b) >
              max (leftTrigTime b) (rightTrigTime b) + BUMPER_MAX_TRIGGER_TIME c * 1000 \<and>
            stateOp r \<noteq> OP_ERROR
         then (b\<lparr>leftTrigTime := 0, rightTrigTime := 0, leftOnTimer := 0, rightOnTimer := 0\<rparr>,
               setOperation c OP_ERROR False (r\<lparr>stateSensor := SENS_BUMPER\<rparr>))
         else (b, r))"

definition Bumper_run :: "config \<Rightarrow> world \<Rightarrow> bumper \<times> robot \<Rightarrow> bumper \<times> robot" where
  "Bumper_run c w br =
     (let b0 = (fst br)\<lparr>inputLeftPressed := bumperDriver_getLeftBumper w,
                        inputRightPressed := bumperDriver_getRightBumper w\<rparr>
      in if BUMPER_ENABLE c
         then
           (let b1 = debounceLeft c w b0;
                b2 = debounceRight c w b1;
                (b3, r3) = stuckDetection c (b2, snd br)
            in (b3\<lparr>lastBumperTime := millis w\<rparr>, r3))
         else (b0, snd br))"

text \<open>
  A run of ticks: \<^verbatim>\<open>Bumper::run()\<close> is called once for each element of the list, which
  gives the clock and the raw bumper inputs of that tick.
\<close>

fun Bumper_runs :: "config \<Rightarrow> world list \<Rightarrow> bumper \<times> robot \<Rightarrow> bumper \<times> robot" where
  "Bumper_runs c [] br = br"
| "Bumper_runs c (w # ws) br = Bumper_runs c ws (Bumper_run c w br)"

section \<open>Instances for evaluation\<close>

text \<open>
  Modelled from the spec: \<^verbatim>\<open>helper.cpp\<close> is not among the embedded sources. Section 4.1
  of the specification describes its angle and geometry routines; they are written
  here as the specification words them and are used only to evaluate the model on
  concrete inputs (every general theorem holds for all \<open>helpers\<close>).
  \<open>wrapAngle\<close> canonicalises an angle into the interval from \<open>-pi\<close> (excluded) to
  \<open>pi\<close> (included).
\<close>

definition wrapAngle :: "real \<Rightarrow> real" where
  "wrapAngle a = a - 2 * pi * of_int \<lceil>(a - pi) / (2 * pi)\<rceil>"

text \<open>Modelled from the spec: the shortest signed rotation from \<open>b\<close> to \<open>a\<close>.\<close>

definition angleDifference :: "real \<Rightarrow> real \<Rightarrow> real" where
  "angleDifference a b = wrapAngle (a - b)"

text \<open>
  Modelled from the spec: \<open>a\<close> adjusted by multiples of \<open>2 * pi\<close> so that it is within
  \<open>pi\<close> of the reference.
\<close>

definition unwrapTo :: "real \<Rightarrow> real \<Rightarrow> real" where
  "unwrapTo reference a = reference + wrapAngle (a - reference)"

text \<open>
  Modelled from the spec: weighted circular interpolation, that is, unwrap \<open>b\<close> toward
  \<open>a\<close>, then interpolate linearly.
\<close>

definition blendAngles :: "real \<Rightarrow> real \<Rightarrow> real \<Rightarrow> real" where
  "blendAngles wt a b = wt * a + (1 - wt) * unwrapTo a b"

text \<open>Modelled from the spec: the bearing from one point to another.\<close>

definition bearing :: "real \<Rightarrow> real \<Rightarrow> real \<Rightarrow> real \<Rightarrow> real" where
  "bearing fx fy tx ty = atan2 (ty - fy) (tx - fx)"

text \<open>
  Modelled from the spec: the signed distance of a point to the unbounded line through
  two points (the sign tells the side; a degenerate line gives 0).
\<close>

definition pointToInfiniteLineDistance ::
  "real \<Rightarrow> real \<Rightarrow> real \<Rightarrow> real \<Rightarrow> real \<Rightarrow> real \<Rightarrow> real" where
  "pointToInfiniteLineDistance px py ax ay bx by =
     (let len = sqrt (sq (bx - ax) + sq (by - ay))
      in if len = 0 then 0
         else ((by - ay) * px - (bx - ax) * py + (bx * ay - by * ax)) / len)"

text \<open>
  Modelled from the spec: the distance of a point to the segment between two points:
  the distance to the line where the foot of the perpendicular lies on the segment, and
  the distance to the nearer end point elsewhere.
\<close>

definition pointToSegmentDistance ::
  "real \<Rightarrow> real \<Rightarrow> real \<Rightarrow> real \<Rightarrow> real \<Rightarrow> real \<Rightarrow> real" where
  "pointToSegmentDistance px py ax ay bx by =
     (let l2 = sq (bx - ax) + sq (by - ay);
          t = ((px - ax) * (bx - ax) + (py - ay) * (by - ay))
      in if l2 = 0 \<or> t < 0 then sqrt (sq (px - ax) + sq (py - ay))
         else if t > l2 then sqrt (sq (px - bx) + sq (py - by))
         else pointToInfiniteLineDistance px py ax ay bx by)"

text \<open>
  The instance of \<open>helpers\<close> used in the examples. The distance of two points is the
  Euclidean one, \<^verbatim>\<open>map\<close> is the Arduino formula on reals, and the conversion from
  latitude and longitude is a stand-in: the examples use relative coordinates
  (\<^verbatim>\<open>absolutePosSource\<close> is false), so it is never consulted.
\<close>

definition exampleHelpers :: helpers where
  "exampleHelpers =
     \<lparr> scalePI = wrapAngle,
       distancePI = (\<lambda>x w. angleDifference w x),
       scalePIangles = (\<lambda>setAngle currAngle. unwrapTo currAngle setAngle),
       fusionPI = blendAngles,
       pointsAngle = bearing,
       distanceLineInfinite = pointToInfiniteLineDistance,
       distanceLine = pointToSegmentDistance,
       distance = (\<lambda>x1 y1 x2 y2. sqrt (sq (x1 - x2) + sq (y1 - y2))),
       arduino_map = (\<lambda>x in_min in_max out_min out_max.
                        (x - in_min) * (out_max - out_min) / (in_max - in_min) + out_min),
       relativeLL = (\<lambda>lat0 lon0 lat1 lon1. (0, 0)) \<rparr>"

text \<open>A configuration for the examples.\<close>

definition exampleConfig :: config where
  "exampleConfig =
     \<lparr> TRANSITION_ANGLE = 20, ROTATION_RAMP = False, ROTATION_RAMP_MIN = 5,
       ROTATION_RAMP_MAX = 25, ANGLEDIFF1 = 30, ANGLEDIFF2 = 15,
       ROTATETOTARGETSPEED1 = 65, ROTATETOTARGETSPEED2 = 40, ROTATETOTARGETSPEED3 = 25,
       ANGLEPRECISE = 5,
       STANLEY_CONTROL_K_NORMAL = 1, STANLEY_CONTROL_P_NORMAL = 2,
       STANLEY_CONTROL_K_SLOW = 0.1, STANLEY_CONTROL_P_SLOW = 1,
       MAP_STANLEY_CONTROL = False,
       STANLEY_FLOAT_K_NORMAL = 0.5, STANLEY_FLOAT_P_NORMAL = 1,
       STANLEY_FLOAT_K_SLOW = 0.1, STANLEY_FLOAT_P_SLOW = 1,
       MOTOR_MIN_SPEED = 0.05, MOTOR_MAX_SPEED = 0.6,
       FLOATSPEED = 0.25, NEARWAYPOINTSPEED = 0.15, SONARSPEED = 0.15, OVERLOADSPEED = 0.2,
       KEEPSLOWSPEED = 0.2, RETRYSLOWSPEED = 0.15, TRACKSLOWSPEED = 0.25,
       DOCKPATHSPEED = 0.25, DOCKSPEED = 0.2,
       NEARWAYPOINTDISTANCE = 0.5, DISTANCE_RAMP = True, DISTANCE_RAMP_MINSPEED = 0.1,
       TRANSITION_SPEED = 0.2,
       DOCK_GPS_REBOOT = False, KIDNAP_DETECT = True,
       KIDNAP_DETECT_ALLOWED_PATH_TOLERANCE = 1,
       KIDNAP_DETECT_DISTANCE_DOCK_UNDOCK = 5,
       KIDNAP_DETECT_ALLOWED_PATH_TOLERANCE_DOCK_UNDOCK = 0.2,
       DOCK_NO_ROTATION = True, DOCK_NO_ROTATION_DISTANCE = 0.1, DOCK_NO_ROTATION_SPEED = 0.15,
       DOCK_NO_ROTATION_TIMER = 12000,
       MOW_START_AT_WAYMOW = False, TARGET_REACHED_TOLERANCE = 0.1,
       ENABLE_LIFT_DETECTION = True, LIFT_OBSTACLE_AVOIDANCE = False,
       BUMPER_ENABLE = True, BUMPER_TRIGGER_DELAY = 0, BUMPER_MAX_TRIGGER_TIME = 30,
       BUMPER_DEADTIME = 1000,
       MOWER_RADIUS_FRONT = 0.5, MOWER_RADIUS_BACK = 0.5, OBSTACLE_DIAMETER = 1.2,
       ESCAPE_REVERSE_WAY = 0.5, SONAR_TRIGGER_OBSTACLES = False,
       GPS_SPEED_DEADTIME = 5000, GPS_SPEED_DETECTION = True, GPS_SPEED_DELAY = 4000,
       NO_GPS_OBSTACLE = False, GPS_MOTION_DETECTION = True,
       GPS_MOTION_DETECTION_DELTA = 0.2, GPS_MOTION_DETECTION_TIMEOUT = 35,
       ROBOT_IDLE_CYCLE = 100, ROBOT_CONTROL_CYCLE = 20 \<rparr>"

text \<open>
  The initial values of the globals, as the sources declare them (the control cycle of
  \<^verbatim>\<open>robot.cpp\<close> with the example configuration).
\<close>

definition initialTracker :: "config \<Rightarrow> tracker" where
  "initialTracker c =
     \<lparr> stanleyTrackingNormalK = STANLEY_CONTROL_K_NORMAL c,
       stanleyTrackingNormalP = STANLEY_CONTROL_P_NORMAL c,
       stanleyTrackingSlowK = STANLEY_CONTROL_K_SLOW c,
       stanleyTrackingSlowP = STANLEY_CONTROL_P_SLOW c,
       targetDist = 0, lastTargetDist = 0, setSpeed = 0.1, CurrSpeed = 0, CurrRot = 0,
       linear = 0, angular = 0, target = (0, 0), lastTarget = (0, 0),
       mow = False, trackslow_allowed = False, straight = False, shouldRotate = False,
       angleToTargetFits = False, angleToTargetPrecise = True, targetReached = False,
       stateKidnapped = False, dockTimer = False, unDockTimer = False, oneTrigger = False,
       trackerDiffDelta = 0, targetDelta = 0, distToPath = 0, lateralError = 0,
       reachedPointBeforeDockTime = 0, chosenIndex = 0, chosenIndexl = 0,
       wasStraight = False, effects = [] \<rparr>"

definition initialEstimator :: estimator where
  "initialEstimator =
     \<lparr> stateX = 0, stateY = 0, stateDelta = 0, stateHeading = 0, stateDeltaGPS = 0,
       stateDeltaIMU = 0, stateGroundSpeed = 0, stateLeftTicks = 0, stateRightTicks = 0,
       lastPosN = 0, lastPosE = 0, lastPosDelta = 0, stateDeltaLast = 0,
       stateDeltaSpeed = 0, stateDeltaSpeedLP = 0, stateDeltaSpeedIMU = 0,
       stateDeltaSpeedWheels = 0, diffIMUWheelYawSpeed = 0, diffIMUWheelYawSpeedLP = 0,
       gpsJump = False, resetLastPos = True, timeLastState = 0, solutionTime = 0,
       lastSolutionTime = 0, solutionTimeDelta = 0, lastFixTime = 0,
       gps_solutionAvail = False, statGPSJumps = 0, statMowDistanceTraveled = 0 \<rparr>"

definition initialRobot :: robot where
  "initialRobot =
     \<lparr> stateOp = OP_IDLE, stateSensor = SENS_NONE, stateChargerConnected = False,
       robot_control_cycle = ROBOT_IDLE_CYCLE exampleConfig, fixTimeout = 0, absolutePosSource = False,
       absolutePosSourceLat = 0, absolutePosSourceLon = 0, deltaTime = 0,
       gpsObstacleNotAllowed = False, gpsObstacleNotAllowedTime = 0,
       linearMotionStartTime = 0, angularMotionStartTime = 0, overallMotionTimeout = 0,
       nextGPSMotionCheckTime = 0, lastGPSMotionX = 0, lastGPSMotionY = 0,
       detectObstacle_lastBumperTime = 0, noGPSSpeedTime = 0, trace = [] \<rparr>"

definition initialBumper :: bumper where
  "initialBumper =
     \<lparr> inputLeftPressed = False, inputRightPressed = False, outputLeftPressed = False,
       outputRightPressed = False, bumperLeft = False, bumperRight = False,
       leftTrigTime = 0, rightTrigTime = 0, rightOnTimer = 0, leftOnTimer = 0,
       lastBumperTime = 0 \<rparr>"

text \<open>
  A tick while mowing a line that runs east from \<open>(-5, 0)\<close> to \<open>(5, 0)\<close>: 100 seconds
  after start, a FIXED solution, 0.3 m/s commanded, no sensor triggered.
\<close>

definition exampleWorld :: world where
  "exampleWorld =
     \<lparr> millis = 100000,
       motor = \<lparr> linearSpeedSet = 0.3, angularSpeedSet = 0, motorLeftOverload = False,
                 motorRightOverload = False, motorMowOverload = False, keepslow = False,
                 retryslow = False, switchedOn = True, enableMowMotor = True,
                 motorLeftTicks = 0, motorRightTicks = 0, ticksPerCm = 2, wheelBaseCm = 39 \<rparr>,
       gps = \<lparr> solution = SOL_FIXED, relPosN = 0, relPosE = 0, lat = 0, lon = 0,
               groundSpeed = 0.3 \<rparr>,
       maps = \<lparr> targetPoint = (5, 0), lastTargetPoint = (- 5, 0),
                distanceToTargetPoint = (\<lambda>x y. 5), distanceToLastTargetPoint = (\<lambda>x y. 5),
                trackReverse = False, trackSlow = False, wayMode = WAY_MOW,
                isUndocking = False, isDocking = False, isAtDockPath = False,
                isGoingToDockPath = False, isTargetingLastDockPoint = False,
                isBetweenLastAndNextToLastDockPoint = False, shouldGpsReboot = False,
                isAtGpsRebootPoint = False, shouldDock = False, getDockingPos = (20, 20),
                nextPointIsStraight = False, nextPoint = True,
                useGPSfixForDeltaEstimation = True, useGPSfloatForDeltaEstimation = False,
                useGPSfixForPosEstimation = True, useGPSfloatForPosEstimation = True,
                useIMU = True \<rparr>,
       sonar_nearObstacle = False, sonar_obstacle = False, buzzer_isPlaying = False,
       liftDriver_triggered = False, imuDriver_imuFound = True,
       bumperDriver_getLeftBumper = False, bumperDriver_getRightBumper = False \<rparr>"

section \<open>Vocabulary of the theorems\<close>

text \<open>The entries of an effect trace that command the drive motors.\<close>

fun isVelocityCmd :: "effect \<Rightarrow> bool" where
  "isVelocityCmd (SetLinearAngularSpeed l a u) = True"
| "isVelocityCmd _ = False"

text \<open>The entries that switch the mowing motor.\<close>

fun isMowCmd :: "effect \<Rightarrow> bool" where
  "isMowCmd (SetMowState m) = True"
| "isMowCmd _ = False"

text \<open>The kidnap events delivered to the active operation.\<close>

fun isKidnapEvent :: "effect \<Rightarrow> bool" where
  "isKidnapEvent (OnKidnapped k) = True"
| "isKidnapEvent _ = False"

text \<open>
  The conditions under which \<^verbatim>\<open>noDockRotation\<close> and \<^verbatim>\<open>noUnDockRotation\<close> start or hold
  their timer in a tick: the tick belongs to a no-rotation phase.
\<close>

definition dockPhase :: "config \<Rightarrow> world \<Rightarrow> bool" where
  "dockPhase c w =
     (DOCK_NO_ROTATION c \<and> wayMode (maps w) = WAY_DOCK \<and>
      isTargetingLastDockPoint (maps w) \<and> \<not> isUndocking (maps w))"

definition undockPhase :: "config \<Rightarrow> world \<Rightarrow> bool" where
  "undockPhase c w =
     (DOCK_NO_ROTATION c \<and> wayMode (maps w) = WAY_DOCK \<and>
      isBetweenLastAndNextToLastDockPoint (maps w) \<and> isUndocking (maps w))"

text \<open>
  The speed that the specification words for the speed-cap stage: the least of the
  setpoint and of the cap values whose condition (lines 212 to 221) is true.
\<close>

definition activeCaps :: "bool list \<Rightarrow> real list \<Rightarrow> real list" where
  "activeCaps flags speeds = map snd (filter fst (zip flags speeds))"

definition specSpeedCap :: "config \<Rightarrow> world \<Rightarrow> tracker \<Rightarrow> real" where
  "specSpeedCap c w s = fold min (activeCaps (capConditions c w s) (linearSpeed c)) (setSpeed s)"

section \<open>Example ticks\<close>

text \<open>
  A tick in which three caps hold at once: the robot is 0.2 m from its target (nearer
  than \<^verbatim>\<open>NEARWAYPOINTDISTANCE\<close>), the left traction motor is overloaded, and the map
  asks for slow tracking. The setpoint speed is 0.3 m/s.
\<close>

definition slowWorld :: world where
  "slowWorld = exampleWorld\<lparr>motor := (motor exampleWorld)\<lparr>motorLeftOverload := True\<rparr>,
                             maps := (maps exampleWorld)\<lparr>trackSlow := True\<rparr>\<rparr>"

definition nearWaypoint :: tracker where
  "nearWaypoint = (initialTracker exampleConfig)\<lparr>setSpeed := 0.3, targetDist := 0.2,
                     lastTargetDist := 5, trackslow_allowed := True\<rparr>"

text \<open>
  The left bumper held down: clear at 100.000 s, pressed from 100.020 s on, still
  pressed at 140.000 s and released at 140.020 s, with \<^verbatim>\<open>Bumper::run\<close> called at the
  listed instants.
\<close>

definition bumperTick :: "ulong \<Rightarrow> bool \<Rightarrow> world" where
  "bumperTick t pressed = exampleWorld\<lparr>millis := t, bumperDriver_getLeftBumper := pressed\<rparr>"

definition heldBumper :: "world list" where
  "heldBumper = [bumperTick 100000 False, bumperTick 100020 True, bumperTick 110000 True,
                 bumperTick 120000 True, bumperTick 131000 True, bumperTick 140000 True,
                 bumperTick 140020 False]"

text \<open>
  A solution 0.5 m north of the last accepted position (the origin), 200 ms after the
  previous solution, for an estimator that has a baseline (\<^verbatim>\<open>resetLastPos\<close> false).
\<close>

definition jumpWorld :: world where
  "jumpWorld = exampleWorld\<lparr>gps := (gps exampleWorld)\<lparr>relPosN := 0.5\<rparr>\<rparr>"

definition trackedEstimator :: estimator where
  "trackedEstimator = initialEstimator\<lparr>gps_solutionAvail := True, resetLastPos := False,
                         solutionTime := 99800\<rparr>"

text \<open>
  A solution 0.2 m north of the last accepted position while the heading estimate
  points east: once for the estimator as it is after start (\<^verbatim>\<open>resetLastPos\<close> is
  initialised to true), once for an estimator that has a baseline.
\<close>

definition moveWorld :: world where
  "moveWorld = exampleWorld\<lparr>gps := (gps exampleWorld)\<lparr>relPosN := 0.2\<rparr>\<rparr>"

definition bootEstimator :: estimator where
  "bootEstimator = initialEstimator\<lparr>gps_solutionAvail := True\<rparr>"

definition runningEstimator :: estimator where
  "runningEstimator = initialEstimator\<lparr>gps_solutionAvail := True, resetLastPos := False\<rparr>"

text \<open>The tracking errors of the example tick: the robot is on the line, heading east.\<close>

definition eastErrors :: tracker where
  "eastErrors = (initialTracker exampleConfig)\<lparr>target := (5, 0), lastTarget := (- 5, 0),
      CurrSpeed := 0.3, targetDist := 5, lastTargetDist := 5\<rparr>"

text \<open>
  The same line run north from \<open>(0, -5)\<close> to \<open>(0, 5)\<close> while the robot heads east: the
  angle error is 90 degrees.
\<close>

definition northWorld :: world where
  "northWorld = exampleWorld\<lparr>maps := (maps exampleWorld)\<lparr>targetPoint := (0, 5), lastTargetPoint := (0, - 5)\<rparr>\<rparr>"

definition northErrors :: tracker where
  "northErrors = (initialTracker exampleConfig)\<lparr>target := (0, 5), lastTarget := (0, - 5),
      CurrSpeed := 0.3, targetDelta := pi / 2, trackerDiffDelta := pi / 2, targetDist := 5,
      lastTargetDist := 5\<rparr>"

text \<open>
  The example tick with the lift sensor triggered, a configuration without
  \<^verbatim>\<open>ENABLE_LIFT_DETECTION\<close>, and the globals of \<^verbatim>\<open>robot.cpp\<close> while mowing.
\<close>

definition liftedWorld :: world where
  "liftedWorld = exampleWorld\<lparr>liftDriver_triggered := True\<rparr>"

definition noLiftConfig :: config where
  "noLiftConfig = exampleConfig\<lparr>ENABLE_LIFT_DETECTION := False\<rparr>"

definition mowingRobot :: robot where
  "mowingRobot = initialRobot\<lparr>stateOp := OP_MOW\<rparr>"

text \<open>
  The robot on the example line with its heading 0.1 rad to the left of the line: the
  tracking errors of that tick.
\<close>

definition skewedEstimator :: estimator where
  "skewedEstimator = initialEstimator\<lparr>stateDelta := 1 / 10\<rparr>"

definition skewedErrors :: tracker where
  "skewedErrors = (initialTracker exampleConfig)\<lparr>target := (5, 0), lastTarget := (- 5, 0),
      CurrSpeed := 0.3, trackerDiffDelta := - (1 / 10), targetDist := 5, lastTargetDist := 5\<rparr>"

text \<open>
  The example tick while docking, with the docking position 1 m east of the robot
  (nearer than \<^verbatim>\<open>KIDNAP_DETECT_DISTANCE_DOCK_UNDOCK\<close>).
\<close>

definition dockingWorld :: world where
  "dockingWorld = exampleWorld\<lparr>maps := (maps exampleWorld)\<lparr>wayMode := WAY_DOCK, isDocking := True,
                                                          getDockingPos := (1, 0)\<rparr>\<rparr>"

section \<open>Theorems\<close>

subsection \<open>Shared lemmas\<close>

lemma atan2_pos: "0 < x \<Longrightarrow> atan2 y x = arctan (y / x)"
  by (simp add: atan2_def)

lemma emit_fields [simp]:
  "linear (emit e s) = linear s" "angular (emit e s) = angular s" "mow (emit e s) = mow s"
  "effects (emit e s) = effects s @ [e]" "stateKidnapped (emit e s) = stateKidnapped s"
  "dockTimer (emit e s) = dockTimer s" "unDockTimer (emit e s) = unDockTimer s"
  "targetReached (emit e s) = targetReached s" "lastTargetDist (emit e s) = lastTargetDist s"
  "reachedPointBeforeDockTime (emit e s) = reachedPointBeforeDockTime s"
  "oneTrigger (emit e s) = oneTrigger s" "distToPath (emit e s) = distToPath s"
  by (simp_all add: emit_def)

text \<open>Fields that the stages of \<^verbatim>\<open>trackLine\<close> leave alone, and what they emit.\<close>

lemma chooseLowest_fst: "fst (chooseLowest xs i (lin, ch)) = fold min (map snd (filter fst xs)) lin"
  by (induction xs arbitrary: i lin ch) (auto simp: min_def)

lemma gate_false:
  "\<bar>trackerDiffDelta s\<bar> / pi * 180 > 45 \<Longrightarrow> targetDist s \<ge> 0.3 \<Longrightarrow> lastTargetDist s \<ge> 0.3 \<Longrightarrow>
   \<bar>distToPath s\<bar> \<le> 1 \<Longrightarrow> \<not> dockTimer s \<Longrightarrow> \<not> unDockTimer s \<Longrightarrow>
   \<not> angleToTargetFits (AngleToTargetFits c s)"
  by (simp add: AngleToTargetFits_def Let_def)

lemma rotate_linear: "linear (rotateToTarget c s) = 0"
  by (simp add: rotateToTarget_def Let_def)

lemma gpsConditions_fields [simp]:
  "linear (gpsConditions c h w est rob s) = linear s"
  "angular (gpsConditions c h w est rob s) = angular s"
  "dockTimer (gpsConditions c h w est rob s) = dockTimer s"
  "unDockTimer (gpsConditions c h w est rob s) = unDockTimer s"
  by (simp_all add: gpsConditions_def Let_def)

lemma noDock_off: "\<not> dockPhase c w \<Longrightarrow> linear (noDockRotation c w s) = linear s \<and> angular (noDockRotation c w s) = angular s"
  by (auto simp add: noDockRotation_def dockPhase_def Let_def)

lemma noUnDock_off: "\<not> undockPhase c w \<Longrightarrow> linear (noUnDockRotation c w s) = linear s \<and> angular (noUnDockRotation c w s) = angular s"
  by (auto simp add: noUnDockRotation_def undockPhase_def Let_def)

lemma checkMow_fields [simp]:
  "linear (checkMowAllowed c w rob s) = linear s"
  "angular (checkMowAllowed c w rob s) = angular s"
  "effects (checkMowAllowed c w rob s) = effects s"
  by (simp_all add: checkMowAllowed_def Let_def)

lemma runControl_linear: "linear (runControlBlock c w s) = (if detectLift c w then 0 else linear s)"
  by (simp add: runControlBlock_def Let_def)

lemma targetReached_fields [simp]:
  "linear (targetReachedBlock w s) = linear s"
  "angular (targetReachedBlock w s) = angular s"
  "mow (targetReachedBlock w s) = mow s"
  by (simp_all add: targetReachedBlock_def Let_def)

lemma trackingErrors_timers [simp]:
  "dockTimer (trackingErrors c h w est s) = dockTimer s"
  "unDockTimer (trackingErrors c h w est s) = unDockTimer s"
  by (simp_all add: trackingErrors_def Let_def)

lemma clamp_abs: "\<bar>max (- pi / 6) (min (pi / 6) x)\<bar> \<le> pi / 6"
proof -
  have "0 < pi / 6" by simp
  then show ?thesis unfolding max_def min_def abs_le_iff by (auto simp del: pi_gt_zero)
qed

lemma stanleyTracker_angular:
  "angular (stanleyTracker c h w s) =
     max (- pi / 6) (min (pi / 6)
       (snd (stanleyGains c h w (floatGains c w s)) * trackerDiffDelta s +
        atan2 (fst (stanleyGains c h w (floatGains c w s)) * lateralError s) (0.001 + \<bar>CurrSpeed s\<bar>)))"
  by (simp add: stanleyTracker_def Let_def floatGains_def split: prod.splits)

lemma linearSpeedState_fields [simp]:
  "trackerDiffDelta (linearSpeedState c h w s) = trackerDiffDelta s"
  "lateralError (linearSpeedState c h w s) = lateralError s"
  "CurrSpeed (linearSpeedState c h w s) = CurrSpeed s"
  "stanleyTrackingNormalK (linearSpeedState c h w s) = stanleyTrackingNormalK s"
  "stanleyTrackingNormalP (linearSpeedState c h w s) = stanleyTrackingNormalP s"
  "stanleyTrackingSlowK (linearSpeedState c h w s) = stanleyTrackingSlowK s"
  "stanleyTrackingSlowP (linearSpeedState c h w s) = stanleyTrackingSlowP s"
  "trackslow_allowed (linearSpeedState c h w s) = True"
  "effects (linearSpeedState c h w s) = effects s"
  by (simp_all add: linearSpeedState_def Let_def split: prod.splits)

lemma gate_fields [simp]:
  "trackerDiffDelta (AngleToTargetFits c s) = trackerDiffDelta s"
  "lateralError (AngleToTargetFits c s) = lateralError s"
  "CurrSpeed (AngleToTargetFits c s) = CurrSpeed s"
  "stanleyTrackingNormalK (AngleToTargetFits c s) = stanleyTrackingNormalK s"
  "stanleyTrackingNormalP (AngleToTargetFits c s) = stanleyTrackingNormalP s"
  "stanleyTrackingSlowK (AngleToTargetFits c s) = stanleyTrackingSlowK s"
  "stanleyTrackingSlowP (AngleToTargetFits c s) = stanleyTrackingSlowP s"
  "effects (AngleToTargetFits c s) = effects s"
  by (simp_all add: AngleToTargetFits_def Let_def)

lemma stanleyGains_cong:
  "CurrSpeed t = CurrSpeed s \<Longrightarrow> trackslow_allowed t = trackslow_allowed s \<Longrightarrow>
   stanleyTrackingNormalK t = stanleyTrackingNormalK s \<Longrightarrow>
   stanleyTrackingNormalP t = stanleyTrackingNormalP s \<Longrightarrow>
   stanleyTrackingSlowK t = stanleyTrackingSlowK s \<Longrightarrow>
   stanleyTrackingSlowP t = stanleyTrackingSlowP s \<Longrightarrow>
   stanleyGains c h w (floatGains c w t) = stanleyGains c h w (floatGains c w s)"
  by (simp add: stanleyGains_def floatGains_def Let_def)

lemma noDock_angular: "angular (noDockRotation c w s) = angular s \<or> angular (noDockRotation c w s) = 0"
  by (auto simp add: noDockRotation_def callTriggerObstacle_def Let_def)

lemma noUnDock_angular: "angular (noUnDockRotation c w s) = angular s \<or> angular (noUnDockRotation c w s) = 0"
  by (auto simp add: noUnDockRotation_def Let_def)

lemma runControl_angular: "angular (runControlBlock c w s) = (if detectLift c w then 0 else angular s)"
  by (simp add: runControlBlock_def Let_def)

lemma trackLine_unfold:
  "trackLine c h w est rob rc s0 =
     targetReachedBlock w
       (if rc
        then runControlBlock c w (checkMowAllowed c w rob (noUnDockRotation c w (noDockRotation c w
               (gpsConditions c h w est rob (selectController c h w (trackingErrors c h w est s0))))))
        else checkMowAllowed c w rob (noUnDockRotation c w (noDockRotation c w
               (gpsConditions c h w est rob (selectController c h w (trackingErrors c h w est s0))))))"
  by (simp add: trackLine_def Let_def)

lemma trackLine_angular:
  "angular (trackLine c h w est rob rc s0) = angular (selectController c h w (trackingErrors c h w est s0))
   \<or> angular (trackLine c h w est rob rc s0) = 0"
proof -
  let ?s2 = "selectController c h w (trackingErrors c h w est s0)"
  let ?s3 = "gpsConditions c h w est rob ?s2"
  let ?s4 = "noDockRotation c w ?s3"
  let ?s5 = "noUnDockRotation c w ?s4"
  let ?s6 = "checkMowAllowed c w rob ?s5"
  have a3: "angular ?s3 = angular ?s2" by simp
  have a4: "angular ?s4 = angular ?s3 \<or> angular ?s4 = 0" by (rule noDock_angular)
  have a5: "angular ?s5 = angular ?s4 \<or> angular ?s5 = 0" by (rule noUnDock_angular)
  have a6: "angular ?s6 = angular ?s5" by simp
  have a7: "angular (trackLine c h w est rob rc s0) = angular ?s6 \<or> angular (trackLine c h w est rob rc s0) = 0"
    unfolding trackLine_unfold by (simp add: runControl_angular)
  from a3 a4 a5 a6 a7 show ?thesis by metis
qed

lemma rotate_effects:
  "effects (rotateToTarget c s) =
     (if \<bar>trackerDiffDelta s\<bar> / pi * 180 < ANGLEPRECISE c
      then effects s @ [ResetStateEstimation] else effects s)"
  by (simp add: rotateToTarget_def Let_def emit_def if_distrib [of effects] if_distrib [of trackerDiffDelta]
        if_distrib [of CurrRot] if_distrib [of CurrSpeed] split del: if_split cong: if_cong)

lemma stanley_effects [simp]: "effects (stanleyTracker c h w s) = effects s"
  by (simp add: stanleyTracker_def floatGains_def Let_def split: prod.splits)

lemma trackingErrors_effects [simp]: "effects (trackingErrors c h w est s) = effects s"
  by (simp add: trackingErrors_def Let_def)

lemma select_vel [simp]: "filter isVelocityCmd (effects (selectController c h w s)) = filter isVelocityCmd (effects s)"
  by (simp add: selectController_def Let_def rotate_effects)

lemma select_mow [simp]: "filter isMowCmd (effects (selectController c h w s)) = filter isMowCmd (effects s)"
  by (simp add: selectController_def Let_def rotate_effects)

lemma gps_vel [simp]: "filter isVelocityCmd (effects (gpsConditions c h w est rob s)) = filter isVelocityCmd (effects s)"
  by (simp add: gpsConditions_def Let_def)

lemma gps_mow [simp]: "filter isMowCmd (effects (gpsConditions c h w est rob s)) = filter isMowCmd (effects s)"
  by (simp add: gpsConditions_def Let_def)

lemma noDock_vel [simp]: "filter isVelocityCmd (effects (noDockRotation c w s)) = filter isVelocityCmd (effects s)"
  by (simp add: noDockRotation_def callTriggerObstacle_def Let_def)

lemma noDock_mow [simp]: "filter isMowCmd (effects (noDockRotation c w s)) = filter isMowCmd (effects s)"
  by (simp add: noDockRotation_def callTriggerObstacle_def Let_def)

lemma noUnDock_vel [simp]: "filter isVelocityCmd (effects (noUnDockRotation c w s)) = filter isVelocityCmd (effects s)"
  by (simp add: noUnDockRotation_def Let_def)

lemma noUnDock_mow [simp]: "filter isMowCmd (effects (noUnDockRotation c w s)) = filter isMowCmd (effects s)"
  by (simp add: noUnDockRotation_def Let_def)

lemma targetReached_vel [simp]: "filter isVelocityCmd (effects (targetReachedBlock w s)) = filter isVelocityCmd (effects s)"
  by (simp add: targetReachedBlock_def Let_def)

lemma targetReached_mow [simp]: "filter isMowCmd (effects (targetReachedBlock w s)) = filter isMowCmd (effects s)"
  by (simp add: targetReachedBlock_def Let_def)

lemma runControl_lift:
  "detectLift c w \<Longrightarrow>
     mow (runControlBlock c w s) = False \<and>
     filter isVelocityCmd (effects (runControlBlock c w s)) =
       filter isVelocityCmd (effects s) @ [SetLinearAngularSpeed 0 0 True] \<and>
     filter isMowCmd (effects (runControlBlock c w s)) =
       filter isMowCmd (effects s) @
         (if switchedOn (motor w) \<and> enableMowMotor (motor w) then [SetMowState False] else [])"
  by (simp add: runControlBlock_def Let_def)

text \<open>Fields that the stages of \<^verbatim>\<open>computeRobotState\<close> leave alone.\<close>

lemma requestReset_fields [simp]:
  "lastPosN (requestReset c w s) = lastPosN s" "lastPosE (requestReset c w s) = lastPosE s"
  "stateDelta (requestReset c w s) = stateDelta s" "stateDeltaIMU (requestReset c w s) = stateDeltaIMU s"
  "stateDeltaGPS (requestReset c w s) = stateDeltaGPS s"
  "lastPosDelta (requestReset c w s) = lastPosDelta s" "solutionTime (requestReset c w s) = solutionTime s"
  "gps_solutionAvail (requestReset c w s) = gps_solutionAvail s"
  "resetLastPos (requestReset c w s) = (resetLastPos s \<or> \<bar>linearSpeedSet (motor w)\<bar> < MOTOR_MIN_SPEED c / 2)"
  by (simp_all add: requestReset_def)

lemma distGPS_cong: "lastPosN t = lastPosN s \<Longrightarrow> lastPosE t = lastPosE s \<Longrightarrow> distGPS n e t = distGPS n e s"
  by (simp add: distGPS_def)

lemma gpsHeading_cong: "lastPosN t = lastPosN s \<Longrightarrow> lastPosE t = lastPosE s \<Longrightarrow> gpsHeading h w n e t = gpsHeading h w n e s"
  by (simp add: gpsHeading_def)

lemma gpsUpdate_jump:
  assumes "gps_solutionAvail s" and "solution (gps w) = SOL_FIXED \<or> solution (gps w) = SOL_FLOAT"
    and "distGPS posN posE s > 0.3" and "millis w - solutionTime s < 350"
  shows "gpsJump (gpsUpdate h w posN posE s)"
    and "stateDelta (gpsUpdate h w posN posE s) = stateDelta s"
    and "stateDeltaIMU (gpsUpdate h w posN posE s) = stateDeltaIMU s"
    and "stateDeltaGPS (gpsUpdate h w posN posE s) = stateDeltaGPS s"
    and "lastPosN (gpsUpdate h w posN posE s) = posN"
    and "lastPosE (gpsUpdate h w posN posE s) = posE"
    and "lastPosDelta (gpsUpdate h w posN posE s) = stateDelta s"
  using assms
  by (simp_all add: gpsUpdate_def Let_def distGPS_def if_distrib [of stateDelta] if_distrib [of gpsJump]
       if_distrib [of stateDeltaIMU] if_distrib [of stateDeltaGPS] if_distrib [of lastPosN]
       if_distrib [of lastPosE] if_distrib [of lastPosDelta] cong: if_cong)

lemma advancePosition_fields [simp]:
  "gpsJump (advancePosition rob d s) = gpsJump s"
  "lastPosN (advancePosition rob d s) = lastPosN s"
  "lastPosE (advancePosition rob d s) = lastPosE s"
  "lastPosDelta (advancePosition rob d s) = lastPosDelta s"
  "stateDelta (advancePosition rob d s) = stateDelta s"
  "stateDeltaIMU (advancePosition rob d s) = stateDeltaIMU s"
  by (simp_all add: advancePosition_def Let_def)

lemma advanceHeading_fields [simp]:
  "gpsJump (advanceHeading h w dO s) = gpsJump s"
  "lastPosN (advanceHeading h w dO s) = lastPosN s"
  "lastPosE (advanceHeading h w dO s) = lastPosE s"
  "lastPosDelta (advanceHeading h w dO s) = lastPosDelta s"
  by (simp_all add: advanceHeading_def)

lemma yawRates_fields [simp]:
  "gpsJump (yawRates w dt dO s) = gpsJump s"
  "lastPosN (yawRates w dt dO s) = lastPosN s"
  "lastPosE (yawRates w dt dO s) = lastPosE s"
  "lastPosDelta (yawRates w dt dO s) = lastPosDelta s"
  "stateDelta (yawRates w dt dO s) = stateDelta s"
  by (simp_all add: yawRates_def Let_def)

lemma yawSpeed_fields [simp]:
  "gpsJump (yawSpeed w dt s) = gpsJump s"
  "lastPosN (yawSpeed w dt s) = lastPosN s"
  "lastPosE (yawSpeed w dt s) = lastPosE s"
  "lastPosDelta (yawSpeed w dt s) = lastPosDelta s"
  "stateDelta (yawSpeed w dt s) = stateDelta s"
  by (simp_all add: yawSpeed_def Let_def)

lemma deadReckoning_fields [simp]:
  "gpsJump (deadReckoning h w rob dt d dO s) = gpsJump s"
  "lastPosN (deadReckoning h w rob dt d dO s) = lastPosN s"
  "lastPosE (deadReckoning h w rob dt d dO s) = lastPosE s"
  "lastPosDelta (deadReckoning h w rob dt d dO s) = lastPosDelta s"
  by (simp_all add: deadReckoning_def Let_def)

lemma deadReckoning_heading:
  "stateDelta (deadReckoning h w rob dt d dO s) =
     (if imuDriver_imuFound w \<and> useIMU (maps w)
      then scalePI h (stateDelta s + stateDeltaIMU s) else scalePI h (stateDelta s + dO))"
  by (simp add: deadReckoning_def Let_def advanceHeading_def)

lemma gpsUpdate_fuse:
  assumes "gps_solutionAvail s" and "solution (gps w) = SOL_FIXED \<or> solution (gps w) = SOL_FLOAT"
    and "\<not> resetLastPos s"
    and "0.1 < distGPS posN posE s" and "distGPS posN posE s \<le> 0.3"
    and "\<bar>distancePI h (stateDelta s) (lastPosDelta s)\<bar> / pi * 180 < 10"
    and "\<bar>linearSpeedSet (motor w)\<bar> > 0" and "\<bar>angularSpeedSet (motor w)\<bar> / pi * 180 < 45"
    and "(solution (gps w) = SOL_FIXED \<and> useGPSfixForDeltaEstimation (maps w))
         \<or> (solution (gps w) = SOL_FLOAT \<and> useGPSfloatForDeltaEstimation (maps w))"
  shows "stateDelta (gpsUpdate h w posN posE s) =
     (if \<bar>distancePI h (stateDelta s) (gpsHeading h w posN posE s) / pi * 180\<bar> > 45
      then gpsHeading h w posN posE s
      else scalePI h (fusionPI h 0.9 (stateDelta s)
             (scalePIangles h (gpsHeading h w posN posE s) (stateDelta s))))"
proof -
  let ?s4 = "s\<lparr>gps_solutionAvail := False, lastSolutionTime := solutionTime s, solutionTime := millis w,
       solutionTimeDelta := millis w - solutionTime s, stateGroundSpeed := groundSpeed (gps w)\<rparr>"
  have g: "gpsHeading h w posN posE ?s4 = gpsHeading h w posN posE s"
    by (rule gpsHeading_cong) simp_all
  have f: "stateDelta (fuseGpsHeading h w posN posE ?s4) =
     (if \<bar>distancePI h (stateDelta s) (gpsHeading h w posN posE s) / pi * 180\<bar> > 45
      then gpsHeading h w posN posE s
      else scalePI h (fusionPI h 0.9 (stateDelta s)
             (scalePIangles h (gpsHeading h w posN posE s) (stateDelta s))))"
    using assms(6-9) by (simp add: fuseGpsHeading_def Let_def g)
  have d: "distGPS posN posE ?s4 = distGPS posN posE s" by (rule distGPS_cong) simp_all
  have c1: "\<not> (distGPS posN posE ?s4 > 0.3 \<or> resetLastPos ?s4)" using assms(3,5) by (simp add: d)
  have c2: "distGPS posN posE ?s4 > 0.1" using assms(4) by (simp add: d)
  have u: "stateDelta (gpsUpdate h w posN posE s) = stateDelta (fuseGpsHeading h w posN posE ?s4)"
    unfolding gpsUpdate_def Let_def
    using assms(1) assms(2) c1 c2
    by (simp add: if_distrib [of stateDelta] split del: if_split cong: if_cong)
  show ?thesis unfolding u f ..
qed

text \<open>Evaluation of the instances.\<close>

lemma wrapAngle_id: "- pi < a \<Longrightarrow> a \<le> pi \<Longrightarrow> wrapAngle a = a"
proof -
  assume a: "- pi < a" "a \<le> pi"
  have "\<lceil>(a - pi) / (2 * pi)\<rceil> = 0"
  proof (rule ceiling_unique)
    show "real_of_int 0 - 1 < (a - pi) / (2 * pi)" using a by (simp add: field_simps)
    show "(a - pi) / (2 * pi) \<le> real_of_int 0" using a by (simp add: field_simps)
  qed
  then show ?thesis by (simp add: wrapAngle_def)
qed

lemma sqrt_example: "sqrt (sq (1 / 5 - 0) + sq (0 - 0)) = 1 / 5"
  by (rule real_sqrt_unique) (simp_all add: sq_def power2_eq_square)

lemma heading_example:
  "lastPosN s = 0 \<Longrightarrow> lastPosE s = 0 \<Longrightarrow> gpsHeading exampleHelpers moveWorld (1 / 5) 0 s = pi / 2"
  by (simp add: gpsHeading_def exampleHelpers_def moveWorld_def exampleWorld_def atan2_def wrapAngle_id)

lemma disagreement_example:
  "\<bar>distancePI exampleHelpers 0 (pi / 2) / pi * 180\<bar> = 90"
  by (simp add: exampleHelpers_def angleDifference_def wrapAngle_id)

lemma pi_bounds: "1 / 10 < pi" "1 / 5 \<le> pi / 6"
  using pi_ge_two by simp_all

lemma te_skewed:
  "trackingErrors exampleConfig exampleHelpers exampleWorld skewedEstimator (initialTracker exampleConfig)
   = skewedErrors"
proof -
  have w: "wrapAngle (- (1 / 10)) = - (1 / 10)"
    using pi_bounds(1) by (intro wrapAngle_id) simp_all
  show ?thesis
    by (simp add: trackingErrors_def skewedErrors_def skewedEstimator_def exampleWorld_def exampleHelpers_def
      initialEstimator_def initialTracker_def exampleConfig_def Let_def bearing_def atan2_def unwrapTo_def
      angleDifference_def w pointToInfiniteLineDistance_def pointToSegmentDistance_def sq_def)
qed

lemma gate_skewed: "angleToTargetFits (AngleToTargetFits exampleConfig skewedErrors)"
proof -
  have "(1 / 10) / pi * 180 < (45::real)"
    using pi_ge_two by (simp add: field_simps)
  then show ?thesis
    by (simp add: AngleToTargetFits_def skewedErrors_def initialTracker_def Let_def)
qed

lemma gains_skewed:
  "stanleyGains exampleConfig exampleHelpers exampleWorld
     (floatGains exampleConfig exampleWorld (skewedErrors\<lparr>trackslow_allowed := True\<rparr>)) = (1, 2)"
  by (simp add: stanleyGains_def floatGains_def skewedErrors_def initialTracker_def exampleWorld_def
      exampleConfig_def)

lemma te_north:
  "trackingErrors exampleConfig exampleHelpers northWorld initialEstimator (initialTracker exampleConfig)
   = northErrors"
  by (simp add: trackingErrors_def northErrors_def northWorld_def exampleWorld_def exampleHelpers_def
      initialEstimator_def initialTracker_def exampleConfig_def Let_def bearing_def atan2_def unwrapTo_def
      angleDifference_def wrapAngle_id pointToInfiniteLineDistance_def pointToSegmentDistance_def sq_def)

lemma te_lifted:
  "trackingErrors c exampleHelpers liftedWorld initialEstimator (initialTracker exampleConfig)
   = eastErrors\<lparr>targetReached := (5 < TARGET_REACHED_TOLERANCE c)\<rparr>"
  by (simp add: trackingErrors_def eastErrors_def liftedWorld_def exampleWorld_def exampleHelpers_def
      initialEstimator_def initialTracker_def Let_def bearing_def atan2_def unwrapTo_def angleDifference_def
      wrapAngle_id pointToInfiniteLineDistance_def pointToSegmentDistance_def sq_def)

lemma stanley_linear [simp]: "linear (stanleyTracker c h w s) = linear s"
  by (simp add: stanleyTracker_def floatGains_def Let_def split: prod.splits)

lemma runControl_nolift:
  "\<not> detectLift c w \<Longrightarrow>
     mow (runControlBlock c w s) = mow s \<and>
     filter isVelocityCmd (effects (runControlBlock c w s)) =
       filter isVelocityCmd (effects s) @ [SetLinearAngularSpeed (linear s) (angular s) True]"
  by (simp add: runControlBlock_def Let_def)

subsection \<open>Rotation in place while the robot still translates\<close>

text \<open>
  Claim C10. In \<^verbatim>\<open>rotateToTarget\<close>, whenever the measured linear speed \<^verbatim>\<open>CurrSpeed\<close> is
  not zero, the function leaves \<^verbatim>\<open>linear = 0\<close> and \<^verbatim>\<open>angular = 0\<close>: no rotation is
  commanded while the robot still translates.
\<close>

theorem rotateToTarget_still_translating:
  "\<bar>CurrSpeed s\<bar> > 0 \<Longrightarrow> linear (rotateToTarget c s) = 0 \<and> angular (rotateToTarget c s) = 0"
  by (simp add: rotateToTarget_def Let_def emit_def)

theorem rotateToTarget_still_translating_witness:
  "\<bar>CurrSpeed ((initialTracker exampleConfig)\<lparr>CurrSpeed := 0.2, trackerDiffDelta := 1\<rparr>)\<bar> > 0
   \<and> linear (rotateToTarget exampleConfig
         ((initialTracker exampleConfig)\<lparr>CurrSpeed := 0.2, trackerDiffDelta := 1\<rparr>)) = 0
   \<and> angular (rotateToTarget exampleConfig
         ((initialTracker exampleConfig)\<lparr>CurrSpeed := 0.2, trackerDiffDelta := 1\<rparr>)) = 0"
  using rotateToTarget_still_translating
    [of "(initialTracker exampleConfig)\<lparr>CurrSpeed := 0.2, trackerDiffDelta := 1\<rparr>" exampleConfig]
  by simp

subsection \<open>Obstacle detection while the robot should not move\<close>

text \<open>
  Claim C9. When the magnitude of the commanded linear speed is below
  \<^verbatim>\<open>MOTOR_MIN_SPEED\<close>, \<^verbatim>\<open>robotShouldMove()\<close> is false and \<^verbatim>\<open>detectObstacle()\<close> returns
  false at once: the globals of \<^verbatim>\<open>robot.cpp\<close> and the trace of calls are unchanged, so
  no cause (lift, bumper, sonar, ground speed, no motion, yaw-rate deflection) is
  looked at and no obstacle event is raised.
\<close>

theorem detectObstacle_not_moving:
  "\<bar>linearSpeedSet (motor w)\<bar> < MOTOR_MIN_SPEED c \<Longrightarrow>
     \<not> robotShouldMove c w \<and> detectObstacle c w est trk b r = (False, r)"
  by (simp add: detectObstacle_def robotShouldMove_def)

theorem detectObstacle_not_moving_witness:
  "\<bar>linearSpeedSet (motor (exampleWorld\<lparr>motor := (motor exampleWorld)\<lparr>linearSpeedSet := 0.01\<rparr>,
        liftDriver_triggered := True, sonar_obstacle := True\<rparr>))\<bar> < MOTOR_MIN_SPEED exampleConfig
   \<and> detectObstacle exampleConfig
        (exampleWorld\<lparr>motor := (motor exampleWorld)\<lparr>linearSpeedSet := 0.01\<rparr>,
           liftDriver_triggered := True, sonar_obstacle := True\<rparr>)
        initialEstimator (initialTracker exampleConfig)
        (initialBumper\<lparr>outputLeftPressed := True\<rparr>) initialRobot = (False, initialRobot)"
  using detectObstacle_not_moving
    [of "exampleWorld\<lparr>motor := (motor exampleWorld)\<lparr>linearSpeedSet := 0.01\<rparr>,
           liftDriver_triggered := True, sonar_obstacle := True\<rparr>" exampleConfig
        initialEstimator "initialTracker exampleConfig" "initialBumper\<lparr>outputLeftPressed := True\<rparr>"
        initialRobot]
  by (simp add: exampleWorld_def exampleConfig_def)

subsection \<open>The gate selects rotation in place\<close>

text \<open>
  Claim C5. In a tick whose angle error \<^verbatim>\<open>trackerDiffDelta\<close> is above 45 degrees in
  magnitude (50 degrees, for one), with both waypoint distances at least 0.3 m,
  \<^verbatim>\<open>|distToPath|\<close> at most 1.0 m and neither \<^verbatim>\<open>dockTimer\<close> nor \<^verbatim>\<open>unDockTimer\<close> set, the
  gate is false, \<^verbatim>\<open>trackLine\<close> runs \<^verbatim>\<open>rotateToTarget\<close> and not the Stanley tracker, and
  the controller's linear velocity is exactly 0. Where the tick does not belong to a
  dock or undock no-rotation phase, \<^verbatim>\<open>linear\<close> is still 0 when \<^verbatim>\<open>trackLine\<close> hands it to
  the motor and returns.
\<close>

theorem rotate_selected_linear_zero:
  assumes "\<bar>trackerDiffDelta (trackingErrors c h w est s0)\<bar> / pi * 180 > 45"
    and "targetDist (trackingErrors c h w est s0) \<ge> 0.3"
    and "lastTargetDist (trackingErrors c h w est s0) \<ge> 0.3"
    and "\<bar>distToPath (trackingErrors c h w est s0)\<bar> \<le> 1"
    and "\<not> dockTimer s0" and "\<not> unDockTimer s0"
  shows "selectController c h w (trackingErrors c h w est s0) =
           rotateToTarget c (AngleToTargetFits c (trackingErrors c h w est s0))
         \<and> linear (selectController c h w (trackingErrors c h w est s0)) = 0
         \<and> (\<not> dockPhase c w \<and> \<not> undockPhase c w \<longrightarrow>
              linear (trackLine c h w est rob runControl s0) = 0)"
proof -
  let ?s = "trackingErrors c h w est s0"
  have g: "\<not> angleToTargetFits (AngleToTargetFits c ?s)"
    using assms by (intro gate_false) simp_all
  then have sel: "selectController c h w ?s = rotateToTarget c (AngleToTargetFits c ?s)"
    by (simp add: selectController_def Let_def)
  then have lin: "linear (selectController c h w ?s) = 0"
    by (simp add: rotate_linear)
  have "linear (trackLine c h w est rob runControl s0) = 0" if "\<not> dockPhase c w" "\<not> undockPhase c w"
    using that lin by (simp add: trackLine_def Let_def runControl_linear noDock_off noUnDock_off)
  with sel lin show ?thesis by blast
qed

theorem rotate_selected_linear_zero_witness:
  "\<bar>trackerDiffDelta (trackingErrors exampleConfig exampleHelpers northWorld initialEstimator
        (initialTracker exampleConfig))\<bar> / pi * 180 = 90
   \<and> linear (selectController exampleConfig exampleHelpers northWorld
         (trackingErrors exampleConfig exampleHelpers northWorld initialEstimator
            (initialTracker exampleConfig))) = 0
   \<and> linear (trackLine exampleConfig exampleHelpers northWorld initialEstimator initialRobot True
         (initialTracker exampleConfig)) = 0"
proof -
  let ?te = "trackingErrors exampleConfig exampleHelpers northWorld initialEstimator
        (initialTracker exampleConfig)"
  have a: "\<bar>trackerDiffDelta ?te\<bar> / pi * 180 = 90"
    unfolding te_north by (simp add: northErrors_def)
  have h1: "\<bar>trackerDiffDelta ?te\<bar> / pi * 180 > 45" unfolding a by simp
  have h2: "targetDist ?te \<ge> 0.3" unfolding te_north by (simp add: northErrors_def)
  have h3: "lastTargetDist ?te \<ge> 0.3" unfolding te_north by (simp add: northErrors_def)
  have h4: "\<bar>distToPath ?te\<bar> \<le> 1" unfolding te_north by (simp add: northErrors_def initialTracker_def)
  have h5: "\<not> dockTimer (initialTracker exampleConfig)" by (simp add: initialTracker_def)
  have h6: "\<not> unDockTimer (initialTracker exampleConfig)" by (simp add: initialTracker_def)
  have ph: "\<not> dockPhase exampleConfig northWorld \<and> \<not> undockPhase exampleConfig northWorld"
    by (simp add: dockPhase_def undockPhase_def northWorld_def exampleWorld_def)
  from rotate_selected_linear_zero [OF h1 h2 h3 h4 h5 h6, of initialRobot True] ph a
  show ?thesis by blast
qed

subsection \<open>The Stanley steering law and its clamp\<close>

text \<open>
  Claim C3. In a tick whose gate is true, the controller's angular velocity is
  \<open>p * angleError + atan2 (k * crossTrackError) (0.001 + |CurrSpeed|)\<close> clamped to the
  interval from \<open>- pi / 6\<close> to \<open>pi / 6\<close>, with the gains \<open>k\<close> and \<open>p\<close> that
  \<^verbatim>\<open>stanleyTracker\<close> selects. The second argument of \<open>atan2\<close> is positive for every
  current speed (zero and negative included), so the term is the arc tangent of a
  quotient with a nonzero denominator. The magnitude of the output is at most
  \<open>pi / 6\<close>, and so is the magnitude of \<^verbatim>\<open>angular\<close> at the end of \<^verbatim>\<open>trackLine\<close>.
\<close>

theorem stanley_angular_clamped:
  assumes "angleToTargetFits (AngleToTargetFits c (trackingErrors c h w est s0))"
  shows "(let s = trackingErrors c h w est s0;
              (k, p) = stanleyGains c h w (floatGains c w (s\<lparr>trackslow_allowed := True\<rparr>));
              a = p * trackerDiffDelta s + atan2 (k * lateralError s) (0.001 + \<bar>CurrSpeed s\<bar>)
          in angular (selectController c h w s) = max (- pi / 6) (min (pi / 6) a)
           \<and> 0 < 0.001 + \<bar>CurrSpeed s\<bar>
           \<and> atan2 (k * lateralError s) (0.001 + \<bar>CurrSpeed s\<bar>)
               = arctan (k * lateralError s / (0.001 + \<bar>CurrSpeed s\<bar>))
           \<and> \<bar>angular (selectController c h w s)\<bar> \<le> pi / 6
           \<and> \<bar>angular (trackLine c h w est rob runControl s0)\<bar> \<le> pi / 6)"
proof -
  let ?s = "trackingErrors c h w est s0"
  let ?t = "linearSpeedState c h w (AngleToTargetFits c ?s)"
  let ?g = "stanleyGains c h w (floatGains c w (?s\<lparr>trackslow_allowed := True\<rparr>))"
  have gains: "stanleyGains c h w (floatGains c w ?t) = ?g"
    by (rule stanleyGains_cong) simp_all
  have sel: "selectController c h w ?s = stanleyTracker c h w ?t"
    using assms by (simp add: selectController_def Let_def)
  have eq: "angular (selectController c h w ?s) =
      max (- pi / 6) (min (pi / 6)
        (snd ?g * trackerDiffDelta ?s + atan2 (fst ?g * lateralError ?s) (0.001 + \<bar>CurrSpeed ?s\<bar>)))"
    unfolding sel stanleyTracker_angular gains by simp
  have pos: "0 < 0.001 + \<bar>CurrSpeed ?s\<bar>" by simp
  have at: "atan2 (fst ?g * lateralError ?s) (0.001 + \<bar>CurrSpeed ?s\<bar>)
      = arctan (fst ?g * lateralError ?s / (0.001 + \<bar>CurrSpeed ?s\<bar>))"
    by (rule atan2_pos) (rule pos)
  have bd: "\<bar>angular (selectController c h w ?s)\<bar> \<le> pi / 6"
    unfolding eq by (rule clamp_abs)
  have bd2: "\<bar>angular (trackLine c h w est rob runControl s0)\<bar> \<le> pi / 6"
    using trackLine_angular [of c h w est rob runControl s0] bd by auto
  show ?thesis
    unfolding Let_def case_prod_beta using eq pos at bd bd2 by blast
qed

theorem stanley_angular_clamped_witness:
  "angleToTargetFits (AngleToTargetFits exampleConfig
      (trackingErrors exampleConfig exampleHelpers exampleWorld skewedEstimator (initialTracker exampleConfig)))
   \<and> angular (selectController exampleConfig exampleHelpers exampleWorld
         (trackingErrors exampleConfig exampleHelpers exampleWorld skewedEstimator
            (initialTracker exampleConfig))) = - (1 / 5)
   \<and> \<bar>angular (trackLine exampleConfig exampleHelpers exampleWorld skewedEstimator initialRobot True
         (initialTracker exampleConfig))\<bar> \<le> pi / 6"
proof -
  have g: "angleToTargetFits (AngleToTargetFits exampleConfig
      (trackingErrors exampleConfig exampleHelpers exampleWorld skewedEstimator (initialTracker exampleConfig)))"
    unfolding te_skewed by (rule gate_skewed)
  have v: "max (- pi / 6) (min (pi / 6) (- (1 / 5))) = - (1 / 5 :: real)"
    using pi_bounds(2) by (simp add: max_def min_def)
  have f: "trackerDiffDelta skewedErrors = - (1 / 10)" "lateralError skewedErrors = 0"
    by (simp_all add: skewedErrors_def initialTracker_def)
  note th = stanley_angular_clamped [OF g, of initialRobot True,
      unfolded te_skewed Let_def gains_skewed prod.case f]
  from th have e1: "angular (selectController exampleConfig exampleHelpers exampleWorld skewedErrors) =
      max (- pi / 6) (min (pi / 6)
        (2 * - (1 / 10) + atan2 (1 * 0) (0.001 + \<bar>CurrSpeed skewedErrors\<bar>)))"
    by blast
  from th have e2: "\<bar>angular (trackLine exampleConfig exampleHelpers exampleWorld skewedEstimator
      initialRobot True (initialTracker exampleConfig))\<bar> \<le> pi / 6"
    by blast
  have a: "atan2 (1 * 0) (0.001 + \<bar>CurrSpeed skewedErrors\<bar>) = 0"
    by (simp add: atan2_def)
  have e: "angular (selectController exampleConfig exampleHelpers exampleWorld skewedErrors) = - (1 / 5)"
    unfolding e1 a using v by simp
  from g e e2 show ?thesis unfolding te_skewed by blast
qed

subsection \<open>Kidnap detection is edge-triggered\<close>

text \<open>
  Claim C7. With \<^verbatim>\<open>KIDNAP_DETECT\<close> enabled, \<^verbatim>\<open>gpsConditions\<close> sets \<^verbatim>\<open>stateKidnapped\<close> to
  whether \<^verbatim>\<open>|distToPath|\<close> exceeds the allowed tolerance, and it delivers \<^verbatim>\<open>onKidnapped\<close>
  exactly when that state changes, with the new state as argument:
  \<^verbatim>\<open>onKidnapped(true)\<close> on the tick that exceeds the tolerance from a false state,
  \<^verbatim>\<open>onKidnapped(false)\<close> on the tick that returns below it, and no kidnap event on a
  tick that leaves the state as it was. The allowed tolerance is
  \<^verbatim>\<open>KIDNAP_DETECT_ALLOWED_PATH_TOLERANCE_DOCK_UNDOCK\<close> when the map is docking or undocking
  and the robot is nearer to the docking position than
  \<^verbatim>\<open>KIDNAP_DETECT_DISTANCE_DOCK_UNDOCK\<close>, and \<^verbatim>\<open>KIDNAP_DETECT_ALLOWED_PATH_TOLERANCE\<close> in
  every other tick.
\<close>

theorem kidnap_edge_triggered:
  assumes "KIDNAP_DETECT c"
  shows "filter isKidnapEvent (effects (gpsConditions c h w est rob s)) =
           filter isKidnapEvent (effects s) @
             (if stateKidnapped (gpsConditions c h w est rob s) \<noteq> stateKidnapped s
              then [OnKidnapped (stateKidnapped (gpsConditions c h w est rob s))] else [])
         \<and> stateKidnapped (gpsConditions c h w est rob s)
             = (\<bar>distToPath s\<bar> > allowedPathTolerance c h w est)
         \<and> allowedPathTolerance c h w est =
             (if (isUndocking (maps w) \<or> isDocking (maps w)) \<and>
                 distance h (fst (getDockingPos (maps w))) (snd (getDockingPos (maps w)))
                   (stateX est) (stateY est) < KIDNAP_DETECT_DISTANCE_DOCK_UNDOCK c
              then KIDNAP_DETECT_ALLOWED_PATH_TOLERANCE_DOCK_UNDOCK c
              else KIDNAP_DETECT_ALLOWED_PATH_TOLERANCE c)
         \<and> stateKidnapped (gpsConditions c h w est rob s)
             = (\<bar>distToPath s\<bar> >
                 (if (isUndocking (maps w) \<or> isDocking (maps w)) \<and>
                     distance h (fst (getDockingPos (maps w))) (snd (getDockingPos (maps w)))
                       (stateX est) (stateY est) < KIDNAP_DETECT_DISTANCE_DOCK_UNDOCK c
                  then KIDNAP_DETECT_ALLOWED_PATH_TOLERANCE_DOCK_UNDOCK c
                  else KIDNAP_DETECT_ALLOWED_PATH_TOLERANCE c))"
proof -
  have e: "filter isKidnapEvent (effects (gpsConditions c h w est rob s)) =
           filter isKidnapEvent (effects s) @
             (if stateKidnapped (gpsConditions c h w est rob s) \<noteq> stateKidnapped s
              then [OnKidnapped (stateKidnapped (gpsConditions c h w est rob s))] else [])"
    using assms by (simp add: gpsConditions_def Let_def)
  have k: "stateKidnapped (gpsConditions c h w est rob s)
             = (\<bar>distToPath s\<bar> > allowedPathTolerance c h w est)"
    using assms by (simp add: gpsConditions_def Let_def)
  have t: "allowedPathTolerance c h w est =
             (if (isUndocking (maps w) \<or> isDocking (maps w)) \<and>
                 distance h (fst (getDockingPos (maps w))) (snd (getDockingPos (maps w)))
                   (stateX est) (stateY est) < KIDNAP_DETECT_DISTANCE_DOCK_UNDOCK c
              then KIDNAP_DETECT_ALLOWED_PATH_TOLERANCE_DOCK_UNDOCK c
              else KIDNAP_DETECT_ALLOWED_PATH_TOLERANCE c)"
    by (simp add: allowedPathTolerance_def)
  have k': "stateKidnapped (gpsConditions c h w est rob s)
             = (\<bar>distToPath s\<bar> >
                 (if (isUndocking (maps w) \<or> isDocking (maps w)) \<and>
                     distance h (fst (getDockingPos (maps w))) (snd (getDockingPos (maps w)))
                       (stateX est) (stateY est) < KIDNAP_DETECT_DISTANCE_DOCK_UNDOCK c
                  then KIDNAP_DETECT_ALLOWED_PATH_TOLERANCE_DOCK_UNDOCK c
                  else KIDNAP_DETECT_ALLOWED_PATH_TOLERANCE c))"
    unfolding k t ..
  from e k t k' show ?thesis by blast
qed

theorem kidnap_edge_triggered_witness:
  "KIDNAP_DETECT exampleConfig
   \<and> isDocking (maps dockingWorld)
   \<and> distance exampleHelpers (fst (getDockingPos (maps dockingWorld))) (snd (getDockingPos (maps dockingWorld)))
        (stateX initialEstimator) (stateY initialEstimator) = 1
   \<and> allowedPathTolerance exampleConfig exampleHelpers dockingWorld initialEstimator = 1 / 5
   \<and> allowedPathTolerance exampleConfig exampleHelpers exampleWorld initialEstimator = 1
   \<and> filter isKidnapEvent (effects (gpsConditions exampleConfig exampleHelpers dockingWorld
        initialEstimator initialRobot ((initialTracker exampleConfig)\<lparr>distToPath := 1 / 2\<rparr>)))
       = [OnKidnapped True]
   \<and> stateKidnapped (gpsConditions exampleConfig exampleHelpers dockingWorld
        initialEstimator initialRobot ((initialTracker exampleConfig)\<lparr>distToPath := 1 / 2\<rparr>))
   \<and> filter isKidnapEvent (effects (gpsConditions exampleConfig exampleHelpers exampleWorld
        initialEstimator initialRobot ((initialTracker exampleConfig)\<lparr>distToPath := 1 / 2\<rparr>)))
       = []
   \<and> filter isKidnapEvent (effects (gpsConditions exampleConfig exampleHelpers exampleWorld
        initialEstimator initialRobot ((initialTracker exampleConfig)\<lparr>distToPath := 2\<rparr>)))
       = [OnKidnapped True]
   \<and> filter isKidnapEvent (effects (gpsConditions exampleConfig exampleHelpers dockingWorld
        initialEstimator initialRobot
        ((initialTracker exampleConfig)\<lparr>distToPath := 1 / 10, stateKidnapped := True\<rparr>)))
       = [OnKidnapped False]"
proof -
  have k: "KIDNAP_DETECT exampleConfig" by (simp add: exampleConfig_def)
  have dk: "isDocking (maps dockingWorld)" by (simp add: dockingWorld_def)
  have di: "distance exampleHelpers (fst (getDockingPos (maps dockingWorld)))
        (snd (getDockingPos (maps dockingWorld))) (stateX initialEstimator) (stateY initialEstimator) = 1"
    by (simp add: dockingWorld_def exampleHelpers_def initialEstimator_def sq_def)
  note d1 = kidnap_edge_triggered [OF k, of exampleHelpers dockingWorld initialEstimator initialRobot
        "(initialTracker exampleConfig)\<lparr>distToPath := 1 / 2\<rparr>"]
  note d2 = kidnap_edge_triggered [OF k, of exampleHelpers dockingWorld initialEstimator initialRobot
        "(initialTracker exampleConfig)\<lparr>distToPath := 1 / 10, stateKidnapped := True\<rparr>"]
  note m1 = kidnap_edge_triggered [OF k, of exampleHelpers exampleWorld initialEstimator initialRobot
        "(initialTracker exampleConfig)\<lparr>distToPath := 1 / 2\<rparr>"]
  note m2 = kidnap_edge_triggered [OF k, of exampleHelpers exampleWorld initialEstimator initialRobot
        "(initialTracker exampleConfig)\<lparr>distToPath := 2\<rparr>"]
  have td: "allowedPathTolerance exampleConfig exampleHelpers dockingWorld initialEstimator = 1 / 5"
    using d1 di dk by (simp add: exampleConfig_def)
  have tm: "allowedPathTolerance exampleConfig exampleHelpers exampleWorld initialEstimator = 1"
    using m1 by (simp add: exampleWorld_def exampleConfig_def)
  have e1: "filter isKidnapEvent (effects (gpsConditions exampleConfig exampleHelpers dockingWorld
        initialEstimator initialRobot ((initialTracker exampleConfig)\<lparr>distToPath := 1 / 2\<rparr>)))
       = [OnKidnapped True]"
    and s1: "stateKidnapped (gpsConditions exampleConfig exampleHelpers dockingWorld
        initialEstimator initialRobot ((initialTracker exampleConfig)\<lparr>distToPath := 1 / 2\<rparr>))"
    using d1 by (simp_all add: td initialTracker_def)
  have e2: "filter isKidnapEvent (effects (gpsConditions exampleConfig exampleHelpers exampleWorld
        initialEstimator initialRobot ((initialTracker exampleConfig)\<lparr>distToPath := 1 / 2\<rparr>)))
       = []"
    using m1 by (simp add: tm initialTracker_def)
  have e3: "filter isKidnapEvent (effects (gpsConditions exampleConfig exampleHelpers exampleWorld
        initialEstimator initialRobot ((initialTracker exampleConfig)\<lparr>distToPath := 2\<rparr>)))
       = [OnKidnapped True]"
    using m2 by (simp add: tm initialTracker_def)
  have e4: "filter isKidnapEvent (effects (gpsConditions exampleConfig exampleHelpers dockingWorld
        initialEstimator initialRobot
        ((initialTracker exampleConfig)\<lparr>distToPath := 1 / 10, stateKidnapped := True\<rparr>)))
       = [OnKidnapped False]"
    using d2 by (simp add: td initialTracker_def)
  from k dk di td tm e1 s1 e2 e3 e4 show ?thesis by blast
qed

subsection \<open>The jump branch of the GPS block\<close>

text \<open>
  Claim C2. In a tick that accepts a new FIXED or FLOAT solution whose displacement
  from the last accepted position exceeds 0.3 m (0.5 m, for one) less than 350 ms
  (200 ms, for one) after the previous solution, \<^verbatim>\<open>gpsJump\<close> is set; the GPS block
  leaves the heading \<^verbatim>\<open>stateDelta\<close> and \<^verbatim>\<open>stateDeltaGPS\<close> as they were, so the heading
  at the end of the tick is the old heading advanced by the IMU or odometry delta
  alone; and the sample becomes the new baseline (\<^verbatim>\<open>lastPosN\<close>, \<^verbatim>\<open>lastPosE\<close>,
  \<^verbatim>\<open>lastPosDelta\<close>).
\<close>

theorem gps_jump_no_fusion:
  assumes "gps_solutionAvail s" and "solution (gps w) = SOL_FIXED \<or> solution (gps w) = SOL_FLOAT"
    and "localPosition h w rob = (posN, posE)"
    and "distGPS posN posE s > 0.3" and "millis w - solutionTime s < 350"
  shows "gpsJump (computeRobotState c h w rob s)
       \<and> stateDelta (gpsStage c h w rob s) = stateDelta s
       \<and> stateDeltaGPS (gpsStage c h w rob s) = stateDeltaGPS s
       \<and> stateDelta (computeRobotState c h w rob s) =
           (if imuDriver_imuFound w \<and> useIMU (maps w)
            then scalePI h (stateDelta s + stateDeltaIMU s)
            else scalePI h (stateDelta s + snd (odometry w s)))
       \<and> lastPosN (computeRobotState c h w rob s) = posN
       \<and> lastPosE (computeRobotState c h w rob s) = posE
       \<and> lastPosDelta (computeRobotState c h w rob s) = stateDelta s"
proof -
  let ?s2 = "requestReset c w (s\<lparr>stateLeftTicks := motorLeftTicks (motor w),
                  stateRightTicks := motorRightTicks (motor w)\<rparr>)"
  have st: "gpsStage c h w rob s = gpsUpdate h w posN posE ?s2"
    using assms(3) by (simp add: gpsStage_def Let_def)
  have a: "gps_solutionAvail ?s2" using assms(1) by simp
  have d: "distGPS posN posE ?s2 > 0.3" using assms(4) by (simp add: distGPS_def)
  have t: "millis w - solutionTime ?s2 < 350" using assms(5) by simp
  note j = gpsUpdate_jump [OF a assms(2) d t, of h]
  have cs: "computeRobotState c h w rob s =
      deadReckoning h w rob (real (unat (millis w - timeLastState s)) / 1000)
        (fst (odometry w s)) (snd (odometry w s)) (gpsStage c h w rob s)"
    by (simp add: computeRobotState_def Let_def case_prod_beta)
  show ?thesis
    unfolding cs deadReckoning_heading deadReckoning_fields st
    using j by simp
qed

theorem gps_jump_no_fusion_witness:
  "distGPS (1 / 2) 0 trackedEstimator > 0.3
   \<and> millis jumpWorld - solutionTime trackedEstimator = 200
   \<and> gpsJump (computeRobotState exampleConfig exampleHelpers jumpWorld initialRobot trackedEstimator)
   \<and> stateDelta (gpsStage exampleConfig exampleHelpers jumpWorld initialRobot trackedEstimator) = 0
   \<and> lastPosN (computeRobotState exampleConfig exampleHelpers jumpWorld initialRobot trackedEstimator) = 1 / 2"
proof -
  have a: "gps_solutionAvail trackedEstimator" by (simp add: trackedEstimator_def)
  have s: "solution (gps jumpWorld) = SOL_FIXED \<or> solution (gps jumpWorld) = SOL_FLOAT"
    by (simp add: jumpWorld_def exampleWorld_def)
  have p: "localPosition exampleHelpers jumpWorld initialRobot = (1 / 2, 0)"
    by (simp add: localPosition_def jumpWorld_def exampleWorld_def initialRobot_def)
  have d: "distGPS (1 / 2) 0 trackedEstimator > 0.3"
    unfolding distGPS_def by (rule real_less_rsqrt) (simp add: trackedEstimator_def initialEstimator_def sq_def power2_eq_square)
  have t: "millis jumpWorld - solutionTime trackedEstimator = 200"
    by (simp add: jumpWorld_def exampleWorld_def trackedEstimator_def)
  have t': "millis jumpWorld - solutionTime trackedEstimator < 350" unfolding t by simp
  have z: "stateDelta trackedEstimator = 0" by (simp add: trackedEstimator_def initialEstimator_def)
  show ?thesis
    using gps_jump_no_fusion [OF a s p d t', of exampleConfig] d t z by simp
qed

subsection \<open>Heading fusion from the GPS displacement\<close>

text \<open>
  Claim C1, as stated: whenever a tick accepts a new FIXED or FLOAT solution with a
  displacement between 0.1 m and 0.3 m, the robot is not turning, a nonzero linear
  speed and less than 45 degrees per second are commanded and the configuration
  permits the solution for heading estimation, the heading is set to the GPS heading
  (disagreement above 45 degrees) or to the 0.9/0.1 blend. The claim fails while
  \<^verbatim>\<open>resetLastPos\<close> is set, as it is after start: the branch that only stores the
  baseline runs, and the heading keeps its value although the GPS heading disagrees by
  90 degrees.
\<close>

theorem gps_heading_fusion_reset_counterexample:
  "gps_solutionAvail bootEstimator \<and> solution (gps moveWorld) = SOL_FIXED
   \<and> useGPSfixForDeltaEstimation (maps moveWorld)
   \<and> localPosition exampleHelpers moveWorld initialRobot = (1 / 5, 0)
   \<and> 0.1 < distGPS (1 / 5) 0 bootEstimator \<and> distGPS (1 / 5) 0 bootEstimator \<le> 0.3
   \<and> \<bar>distancePI exampleHelpers (stateDelta bootEstimator) (lastPosDelta bootEstimator)\<bar> / pi * 180 < 10
   \<and> \<bar>linearSpeedSet (motor moveWorld)\<bar> > 0 \<and> \<bar>angularSpeedSet (motor moveWorld)\<bar> / pi * 180 < 45
   \<and> \<bar>distancePI exampleHelpers (stateDelta bootEstimator)
         (gpsHeading exampleHelpers moveWorld (1 / 5) 0 bootEstimator) / pi * 180\<bar> > 45
   \<and> gpsHeading exampleHelpers moveWorld (1 / 5) 0 bootEstimator = pi / 2
   \<and> stateDelta (gpsStage exampleConfig exampleHelpers moveWorld initialRobot bootEstimator) = 0
   \<and> stateDelta (gpsStage exampleConfig exampleHelpers moveWorld initialRobot bootEstimator)
       \<noteq> gpsHeading exampleHelpers moveWorld (1 / 5) 0 bootEstimator"
proof -
  have p: "localPosition exampleHelpers moveWorld initialRobot = (1 / 5, 0)"
    by (simp add: localPosition_def moveWorld_def exampleWorld_def initialRobot_def)
  have z: "stateDelta bootEstimator = 0" "lastPosDelta bootEstimator = 0"
    "lastPosN bootEstimator = 0" "lastPosE bootEstimator = 0" "resetLastPos bootEstimator"
    "gps_solutionAvail bootEstimator"
    by (simp_all add: bootEstimator_def initialEstimator_def)
  have d: "distGPS (1 / 5) 0 bootEstimator = 1 / 5"
    using sqrt_example by (simp add: distGPS_def z)
  have n: "\<bar>distancePI exampleHelpers (stateDelta bootEstimator) (lastPosDelta bootEstimator)\<bar> / pi * 180 < 10"
    by (simp add: z exampleHelpers_def angleDifference_def wrapAngle_id)
  have h: "gpsHeading exampleHelpers moveWorld (1 / 5) 0 bootEstimator = pi / 2"
    by (rule heading_example) (simp_all add: z)
  have w: "solution (gps moveWorld) = SOL_FIXED" "useGPSfixForDeltaEstimation (maps moveWorld)"
    "\<bar>linearSpeedSet (motor moveWorld)\<bar> > 0" "\<bar>angularSpeedSet (motor moveWorld)\<bar> / pi * 180 < 45"
    by (simp_all add: moveWorld_def exampleWorld_def)
  have st: "stateDelta (gpsStage exampleConfig exampleHelpers moveWorld initialRobot bootEstimator) = 0"
    using z w(1)
    by (simp add: gpsStage_def p gpsUpdate_def requestReset_def Let_def
          if_distrib [of stateDelta] cong: if_cong)
  have d1: "0.1 < distGPS (1 / 5) 0 bootEstimator" unfolding d by simp
  have d2: "distGPS (1 / 5) 0 bootEstimator \<le> 0.3" unfolding d by simp
  have dis: "\<bar>distancePI exampleHelpers (stateDelta bootEstimator)
         (gpsHeading exampleHelpers moveWorld (1 / 5) 0 bootEstimator) / pi * 180\<bar> > 45"
    by (simp only: h z disagreement_example)
  have ne: "stateDelta (gpsStage exampleConfig exampleHelpers moveWorld initialRobot bootEstimator)
       \<noteq> gpsHeading exampleHelpers moveWorld (1 / 5) 0 bootEstimator"
    unfolding st h by simp
  show ?thesis
    using z(6) w p d1 d2 n dis h st ne by blast
qed

text \<open>
  Claim C1, amended: under the same conditions and, in addition, with \<^verbatim>\<open>resetLastPos\<close>
  false at the start of the tick and a commanded linear speed of at least
  \<^verbatim>\<open>MOTOR_MIN_SPEED / 2\<close> (so that the tick does not set it), the GPS block sets
  \<^verbatim>\<open>stateDelta\<close> to the GPS heading when the disagreement exceeds 45 degrees, and to
  \<^verbatim>\<open>scalePI(fusionPI(0.9, stateDelta, scalePIangles(stateDeltaGPS, stateDelta)))\<close>
  otherwise.
\<close>

theorem gps_heading_fusion:
  assumes "gps_solutionAvail s" and "solution (gps w) = SOL_FIXED \<or> solution (gps w) = SOL_FLOAT"
    and "localPosition h w rob = (posN, posE)"
    and "\<not> resetLastPos s" and "MOTOR_MIN_SPEED c / 2 \<le> \<bar>linearSpeedSet (motor w)\<bar>"
    and "0.1 < distGPS posN posE s" and "distGPS posN posE s \<le> 0.3"
    and "\<bar>distancePI h (stateDelta s) (lastPosDelta s)\<bar> / pi * 180 < 10"
    and "\<bar>linearSpeedSet (motor w)\<bar> > 0" and "\<bar>angularSpeedSet (motor w)\<bar> / pi * 180 < 45"
    and "(solution (gps w) = SOL_FIXED \<and> useGPSfixForDeltaEstimation (maps w))
         \<or> (solution (gps w) = SOL_FLOAT \<and> useGPSfloatForDeltaEstimation (maps w))"
  shows "stateDelta (gpsStage c h w rob s) =
     (if \<bar>distancePI h (stateDelta s) (gpsHeading h w posN posE s) / pi * 180\<bar> > 45
      then gpsHeading h w posN posE s
      else scalePI h (fusionPI h 0.9 (stateDelta s)
             (scalePIangles h (gpsHeading h w posN posE s) (stateDelta s))))"
proof -
  let ?s2 = "requestReset c w (s\<lparr>stateLeftTicks := motorLeftTicks (motor w),
                  stateRightTicks := motorRightTicks (motor w)\<rparr>)"
  have st: "gpsStage c h w rob s = gpsUpdate h w posN posE ?s2"
    using assms(3) by (simp add: gpsStage_def Let_def)
  have a: "gps_solutionAvail ?s2" using assms(1) by simp
  have r: "\<not> resetLastPos ?s2" using assms(4,5) by simp
  have d: "distGPS posN posE ?s2 = distGPS posN posE s" by (rule distGPS_cong) simp_all
  have g: "gpsHeading h w posN posE ?s2 = gpsHeading h w posN posE s" by (rule gpsHeading_cong) simp_all
  have n: "\<bar>distancePI h (stateDelta ?s2) (lastPosDelta ?s2)\<bar> / pi * 180 < 10" using assms(8) by simp
  have "stateDelta (gpsUpdate h w posN posE ?s2) =
     (if \<bar>distancePI h (stateDelta ?s2) (gpsHeading h w posN posE ?s2) / pi * 180\<bar> > 45
      then gpsHeading h w posN posE ?s2
      else scalePI h (fusionPI h 0.9 (stateDelta ?s2)
             (scalePIangles h (gpsHeading h w posN posE ?s2) (stateDelta ?s2))))"
    by (rule gpsUpdate_fuse [OF a assms(2) r _ _ n assms(9) assms(10) assms(11)])
       (simp_all only: d assms(6) assms(7))
  then show ?thesis unfolding st g by simp
qed

theorem gps_heading_fusion_witness:
  "\<not> resetLastPos runningEstimator
   \<and> distGPS (1 / 5) 0 runningEstimator = 1 / 5
   \<and> stateDelta (gpsStage exampleConfig exampleHelpers moveWorld initialRobot runningEstimator) = pi / 2"
proof -
  have a: "gps_solutionAvail runningEstimator" by (simp add: runningEstimator_def)
  have s: "solution (gps moveWorld) = SOL_FIXED \<or> solution (gps moveWorld) = SOL_FLOAT"
    by (simp add: moveWorld_def exampleWorld_def)
  have p: "localPosition exampleHelpers moveWorld initialRobot = (1 / 5, 0)"
    by (simp add: localPosition_def moveWorld_def exampleWorld_def initialRobot_def)
  have r: "\<not> resetLastPos runningEstimator" by (simp add: runningEstimator_def)
  have m: "MOTOR_MIN_SPEED exampleConfig / 2 \<le> \<bar>linearSpeedSet (motor moveWorld)\<bar>"
    by (simp add: moveWorld_def exampleWorld_def exampleConfig_def)
  have d: "distGPS (1 / 5) 0 runningEstimator = 1 / 5"
    using sqrt_example by (simp add: distGPS_def runningEstimator_def initialEstimator_def)
  have d1: "0.1 < distGPS (1 / 5) 0 runningEstimator" unfolding d by simp
  have d2: "distGPS (1 / 5) 0 runningEstimator \<le> 0.3" unfolding d by simp
  have z: "stateDelta runningEstimator = 0" "lastPosDelta runningEstimator = 0"
    "lastPosN runningEstimator = 0" "lastPosE runningEstimator = 0"
    by (simp_all add: runningEstimator_def initialEstimator_def)
  have n: "\<bar>distancePI exampleHelpers (stateDelta runningEstimator) (lastPosDelta runningEstimator)\<bar> / pi * 180 < 10"
    by (simp add: z exampleHelpers_def angleDifference_def wrapAngle_id)
  have l: "\<bar>linearSpeedSet (motor moveWorld)\<bar> > 0" by (simp add: moveWorld_def exampleWorld_def)
  have g: "\<bar>angularSpeedSet (motor moveWorld)\<bar> / pi * 180 < 45" by (simp add: moveWorld_def exampleWorld_def)
  have u: "(solution (gps moveWorld) = SOL_FIXED \<and> useGPSfixForDeltaEstimation (maps moveWorld))
         \<or> (solution (gps moveWorld) = SOL_FLOAT \<and> useGPSfloatForDeltaEstimation (maps moveWorld))"
    by (simp add: moveWorld_def exampleWorld_def)
  have h: "gpsHeading exampleHelpers moveWorld (1 / 5) 0 runningEstimator = pi / 2"
    by (rule heading_example) (simp_all add: z)
  have "stateDelta (gpsStage exampleConfig exampleHelpers moveWorld initialRobot runningEstimator) =
     (if \<bar>distancePI exampleHelpers (stateDelta runningEstimator)
            (gpsHeading exampleHelpers moveWorld (1 / 5) 0 runningEstimator) / pi * 180\<bar> > 45
      then gpsHeading exampleHelpers moveWorld (1 / 5) 0 runningEstimator
      else scalePI exampleHelpers (fusionPI exampleHelpers 0.9 (stateDelta runningEstimator)
             (scalePIangles exampleHelpers (gpsHeading exampleHelpers moveWorld (1 / 5) 0 runningEstimator)
                (stateDelta runningEstimator))))"
    by (rule gps_heading_fusion [OF a s p r m d1 d2 n l g u])
  also have "\<dots> = pi / 2"
    by (simp only: h z disagreement_example) simp
  finally have e: "stateDelta (gpsStage exampleConfig exampleHelpers moveWorld initialRobot runningEstimator) = pi / 2" .
  show ?thesis
    using r d e by blast
qed

subsection \<open>The speed-cap stage\<close>

text \<open>
  Claim C4, as stated: the speed chosen by the selection loop is the least of the
  setpoint and of the caps whose condition is true, the near-waypoint cap among them.
  It fails under \<^verbatim>\<open>DISTANCE_RAMP\<close>: with the near-waypoint, overload and track-slow
  conditions true at once, the loop returns the overload speed 0.2 and not the
  near-waypoint speed 0.15.
\<close>

theorem speedCap_distance_ramp_counterexample:
  "capConditions exampleConfig slowWorld nearWaypoint =
     [False, True, False, True, False, False, True, False, False, False]
   \<and> specSpeedCap exampleConfig slowWorld nearWaypoint = 3 / 20
   \<and> fst (speedCap exampleConfig slowWorld nearWaypoint) = 1 / 5
   \<and> fst (speedCap exampleConfig slowWorld nearWaypoint) \<noteq> specSpeedCap exampleConfig slowWorld nearWaypoint"
proof -
  have c: "capConditions exampleConfig slowWorld nearWaypoint =
     [False, True, False, True, False, False, True, False, False, False]"
    by (simp add: capConditions_def slowWorld_def nearWaypoint_def exampleWorld_def exampleConfig_def
        initialTracker_def)
  have l: "linearSpeed exampleConfig = [0.25, 0.15, 0.15, 0.2, 0.2, 0.15, 0.25, 0.15, 0.25, 0.2]"
    by (simp add: linearSpeed_def exampleConfig_def)
  have d: "DISTANCE_RAMP exampleConfig" by (simp add: exampleConfig_def)
  have sp: "setSpeed nearWaypoint = 0.3" by (simp add: nearWaypoint_def)
  have a: "specSpeedCap exampleConfig slowWorld nearWaypoint = 3 / 20"
    by (simp add: specSpeedCap_def activeCaps_def c l sp)
  have b: "fst (speedCap exampleConfig slowWorld nearWaypoint) = 1 / 5"
    by (simp add: speedCap_def linearBool_def Let_def c l sp d)
  from a b c show ?thesis by simp
qed

text \<open>
  Claim C4, amended: the speed chosen by the selection loop, before the distance ramp
  and the sign flip for reverse tracking, is the least of the setpoint and of the caps
  whose entry of \<^verbatim>\<open>linearBool\<close> is true; the entries are the ten conditions, except
  that the near-waypoint entry is false whenever \<^verbatim>\<open>DISTANCE_RAMP\<close> is enabled.
\<close>

theorem speedCap_minimum: "fst (speedCap c w s) =
    Min (insert (setSpeed s) (set (activeCaps (linearBool c w s) (linearSpeed c))))
  \<and> linearBool c w s = (if DISTANCE_RAMP c then (capConditions c w s)[1 := False] else capConditions c w s)"
  unfolding speedCap_def chooseLowest_fst activeCaps_def linearBool_def Let_def
  by (metis Min.set_eq_fold list.simps(15))

subsection \<open>Lift\<close>

text \<open>
  Claim C6, as stated: on every tick in which the lift driver reports the robot
  lifted, the velocity command is zero and mowing is disabled. It fails where the
  firmware is built without \<^verbatim>\<open>ENABLE_LIFT_DETECTION\<close>: \<^verbatim>\<open>detectLift()\<close> then never asks
  the driver, and the tick sends the controller's velocity (0.1 m/s here) with mowing
  allowed.
\<close>

theorem lift_detection_disabled_counterexample:
  "liftDriver_triggered liftedWorld
   \<and> filter isVelocityCmd (effects (trackLine noLiftConfig exampleHelpers liftedWorld initialEstimator
        mowingRobot True (initialTracker exampleConfig))) = [SetLinearAngularSpeed (1 / 10) 0 True]
   \<and> mow (trackLine noLiftConfig exampleHelpers liftedWorld initialEstimator mowingRobot True
        (initialTracker exampleConfig)) = True"
proof -
  let ?te = "trackingErrors noLiftConfig exampleHelpers liftedWorld initialEstimator (initialTracker exampleConfig)"
  let ?s2 = "selectController noLiftConfig exampleHelpers liftedWorld ?te"
  let ?s3 = "gpsConditions noLiftConfig exampleHelpers liftedWorld initialEstimator mowingRobot ?s2"
  let ?s4 = "noDockRotation noLiftConfig liftedWorld ?s3"
  let ?s5 = "noUnDockRotation noLiftConfig liftedWorld ?s4"
  let ?s6 = "checkMowAllowed noLiftConfig liftedWorld mowingRobot ?s5"
  have t: "liftDriver_triggered liftedWorld" by (simp add: liftedWorld_def)
  have nl: "\<not> detectLift noLiftConfig liftedWorld" by (simp add: detectLift_def noLiftConfig_def)
  have te: "?te = eastErrors"
    unfolding te_lifted by (simp add: noLiftConfig_def exampleConfig_def eastErrors_def initialTracker_def)
  have ga: "AngleToTargetFits noLiftConfig eastErrors = eastErrors\<lparr>angleToTargetFits := True\<rparr>"
    by (simp add: AngleToTargetFits_def eastErrors_def initialTracker_def Let_def)
  have sel: "?s2 = stanleyTracker noLiftConfig exampleHelpers liftedWorld
        (linearSpeedState noLiftConfig exampleHelpers liftedWorld (eastErrors\<lparr>angleToTargetFits := True\<rparr>))"
    unfolding te by (simp add: selectController_def Let_def ga)
  have lin2: "linear ?s2 = 1 / 10"
    unfolding sel
    by (simp add: linearSpeedState_def speedCap_def linearBool_def capConditions_def linearSpeed_def
        eastErrors_def initialTracker_def liftedWorld_def exampleWorld_def noLiftConfig_def exampleConfig_def Let_def)
  have ang2: "angular ?s2 = 0"
    unfolding sel stanleyTracker_angular
    by (simp add: eastErrors_def initialTracker_def atan2_def)
  have ph: "\<not> dockPhase noLiftConfig liftedWorld" "\<not> undockPhase noLiftConfig liftedWorld"
    by (simp_all add: dockPhase_def undockPhase_def liftedWorld_def exampleWorld_def)
  have l6: "linear ?s6 = 1 / 10"
    using noDock_off [OF ph(1), of ?s3] noUnDock_off [OF ph(2), of ?s4] lin2 by simp
  have a6: "angular ?s6 = 0"
    using noDock_off [OF ph(1), of ?s3] noUnDock_off [OF ph(2), of ?s4] ang2 by simp
  have m6: "mow ?s6"
    by (simp add: checkMowAllowed_def noLiftConfig_def exampleConfig_def liftedWorld_def exampleWorld_def
        mowingRobot_def initialRobot_def Let_def)
  have e6: "filter isVelocityCmd (effects ?s6) = []"
    by (simp add: initialTracker_def)
  have tl: "trackLine noLiftConfig exampleHelpers liftedWorld initialEstimator mowingRobot True
        (initialTracker exampleConfig) = targetReachedBlock liftedWorld (runControlBlock noLiftConfig liftedWorld ?s6)"
    unfolding trackLine_unfold by simp
  have v: "filter isVelocityCmd (effects (runControlBlock noLiftConfig liftedWorld ?s6)) =
      [SetLinearAngularSpeed (1 / 10) 0 True]"
    using runControl_nolift [OF nl, of ?s6] e6 l6 a6 by simp
  have mo: "mow (runControlBlock noLiftConfig liftedWorld ?s6)"
    using runControl_nolift [OF nl, of ?s6] m6 by simp
  show ?thesis
    unfolding tl using t v mo by simp
qed

text \<open>
  Claim C6, amended: on every tick that runs control (\<^verbatim>\<open>runControl\<close> true) and in which
  \<^verbatim>\<open>detectLift()\<close> is true (the firmware is built with \<^verbatim>\<open>ENABLE_LIFT_DETECTION\<close> and the
  lift driver reports the robot lifted), \<^verbatim>\<open>trackLine\<close> sends exactly one velocity
  command, linear 0 and angular 0, whatever the controller and the dock phases
  computed before; \<^verbatim>\<open>mow\<close> is false, and the only command to the mowing motor in the
  tick is the one that switches it off (sent when it is on and enabled).
\<close>

theorem lift_zeroes_command:
  assumes "detectLift c w"
  shows "mow (trackLine c h w est rob True s0) = False
       \<and> filter isVelocityCmd (effects (trackLine c h w est rob True s0)) =
           filter isVelocityCmd (effects s0) @ [SetLinearAngularSpeed 0 0 True]
       \<and> filter isMowCmd (effects (trackLine c h w est rob True s0)) =
           filter isMowCmd (effects s0) @
             (if switchedOn (motor w) \<and> enableMowMotor (motor w) then [SetMowState False] else [])"
  unfolding trackLine_unfold
  using runControl_lift [OF assms, of "checkMowAllowed c w rob (noUnDockRotation c w (noDockRotation c w
               (gpsConditions c h w est rob (selectController c h w (trackingErrors c h w est s0)))))"]
  by simp

theorem lift_zeroes_command_witness:
  "detectLift exampleConfig liftedWorld
   \<and> mow (trackLine exampleConfig exampleHelpers liftedWorld initialEstimator mowingRobot True
        (initialTracker exampleConfig)) = False
   \<and> filter isVelocityCmd (effects (trackLine exampleConfig exampleHelpers liftedWorld initialEstimator
        mowingRobot True (initialTracker exampleConfig))) = [SetLinearAngularSpeed 0 0 True]
   \<and> filter isMowCmd (effects (trackLine exampleConfig exampleHelpers liftedWorld initialEstimator
        mowingRobot True (initialTracker exampleConfig))) = [SetMowState False]"
proof -
  have l: "detectLift exampleConfig liftedWorld"
    by (simp add: detectLift_def liftedWorld_def exampleConfig_def)
  have e: "effects (initialTracker exampleConfig) = []" by (simp add: initialTracker_def)
  have m: "switchedOn (motor liftedWorld) \<and> enableMowMotor (motor liftedWorld)"
    by (simp add: liftedWorld_def exampleWorld_def)
  from lift_zeroes_command [OF l, of exampleHelpers initialEstimator mowingRobot "initialTracker exampleConfig"]
  show ?thesis by (simp add: l e m)
qed

subsection \<open>A bumper that stays pressed\<close>

text \<open>
  Claim C8 at a concrete run: with \<^verbatim>\<open>BUMPER_MAX_TRIGGER_TIME\<close> of 30 seconds, the left
  bumper pressed from 100.020 s to 140.000 s and then released, and the robot mowing,
  the operation is still \<^verbatim>\<open>OP_MOW\<close> after the release and \<^verbatim>\<open>setOperation\<close> was never
  called. The stuck test compares the accumulated time (40000 ms at the end) with the
  time stamp of the press plus the limit (100020 + 30000).
\<close>

theorem bumper_stuck_not_detected:
  "stateOp (snd (Bumper_runs exampleConfig heldBumper (initialBumper, initialRobot\<lparr>stateOp := OP_MOW\<rparr>))) = OP_MOW
   \<and> trace (snd (Bumper_runs exampleConfig heldBumper (initialBumper, initialRobot\<lparr>stateOp := OP_MOW\<rparr>))) = []
   \<and> leftOnTimer (fst (Bumper_runs exampleConfig heldBumper (initialBumper, initialRobot\<lparr>stateOp := OP_MOW\<rparr>))) = 40000
   \<and> leftTrigTime (fst (Bumper_runs exampleConfig heldBumper (initialBumper, initialRobot\<lparr>stateOp := OP_MOW\<rparr>))) = 100020
   \<and> \<not> bumperLeft (fst (Bumper_runs exampleConfig heldBumper (initialBumper, initialRobot\<lparr>stateOp := OP_MOW\<rparr>)))"
  by code_simp

end
